theory Spec2Isabelle
  imports Complex_Main
begin


section \<open>Python strings\<close>

text \<open>
  A Python \<open>str\<close> is a sequence of Unicode code points: \<open>len\<close> counts code points and
  the comparison operators compare code point by code point. A string is therefore a list
  of code points, and a literal of the source that is not ASCII is written as the list of
  its code points.
\<close>

type_synonym codepoint = nat
type_synonym pystr = "codepoint list"

definition asc :: "string \<Rightarrow> pystr" where
  "asc s = map of_char s"

text \<open>
  \<open>str.isdigit\<close>, \<open>str.isalnum\<close> and \<open>str.isspace\<close> are decided by the Unicode
  character database. On ASCII the answer is written out below; beyond ASCII the tables
  are not part of the repository and are a parameter.
\<close>

record unicode_tables =
  uc_isdigit :: "codepoint \<Rightarrow> bool"
  uc_isalnum :: "codepoint \<Rightarrow> bool"
  uc_isspace :: "codepoint \<Rightarrow> bool"

definition ascii_digit :: "codepoint \<Rightarrow> bool" where
  "ascii_digit c = (48 \<le> c \<and> c \<le> 57)"

definition ascii_alpha :: "codepoint \<Rightarrow> bool" where
  "ascii_alpha c = ((65 \<le> c \<and> c \<le> 90) \<or> (97 \<le> c \<and> c \<le> 122))"

definition ascii_space :: "codepoint \<Rightarrow> bool" where
  "ascii_space c = ((9 \<le> c \<and> c \<le> 13) \<or> (28 \<le> c \<and> c \<le> 32))"

definition py_isdigit :: "unicode_tables \<Rightarrow> codepoint \<Rightarrow> bool" where
  "py_isdigit U c = (if c < 128 then ascii_digit c else uc_isdigit U c)"

definition py_isalnum :: "unicode_tables \<Rightarrow> codepoint \<Rightarrow> bool" where
  "py_isalnum U c = (if c < 128 then ascii_digit c \<or> ascii_alpha c else uc_isalnum U c)"

definition py_isspace :: "unicode_tables \<Rightarrow> codepoint \<Rightarrow> bool" where
  "py_isspace U c = (if c < 128 then ascii_space c else uc_isspace U c)"

text \<open>The tables of an interpreter that knows no character beyond ASCII.\<close>

definition ascii_tables :: unicode_tables where
  "ascii_tables =
     \<lparr>uc_isdigit = (\<lambda>c. False), uc_isalnum = (\<lambda>c. False), uc_isspace = (\<lambda>c. False)\<rparr>"

text \<open>\<open>s.strip()\<close>: whitespace removed at both ends.\<close>

definition py_strip :: "unicode_tables \<Rightarrow> pystr \<Rightarrow> pystr" where
  "py_strip U s = rev (dropWhile (py_isspace U) (rev (dropWhile (py_isspace U) s)))"

text \<open>\<open>needle in hay\<close> on strings: \<open>needle\<close> occurs as a contiguous run.\<close>

fun is_prefix :: "pystr \<Rightarrow> pystr \<Rightarrow> bool" where
  "is_prefix [] ys = True"
| "is_prefix (x # xs) [] = False"
| "is_prefix (x # xs) (y # ys) = (x = y \<and> is_prefix xs ys)"

fun str_in :: "pystr \<Rightarrow> pystr \<Rightarrow> bool" where
  "str_in needle [] = (needle = [])"
| "str_in needle (y # ys) = (is_prefix needle (y # ys) \<or> str_in needle ys)"

text \<open>\<open>str(n)\<close> for an integer: decimal digits, with a minus sign below zero.\<close>

fun str_nat :: "nat \<Rightarrow> pystr" where
  "str_nat n = (if n < 10 then [48 + n] else str_nat (n div 10) @ [48 + n mod 10])"

declare str_nat.simps [simp del]

definition str_int :: "int \<Rightarrow> pystr" where
  "str_int i = (if i < 0 then 45 # str_nat (nat (- i)) else str_nat (nat i))"

text \<open>
  \<open>s > t\<close> on strings: at the first position where they differ the greater code point
  decides; a proper prefix is the smaller one.
\<close>

fun str_gt :: "pystr \<Rightarrow> pystr \<Rightarrow> bool" where
  "str_gt [] t = False"
| "str_gt (x # xs) [] = True"
| "str_gt (x # xs) (y # ys) = (if x = y then str_gt xs ys else y < x)"


section \<open>Price normalization\<close>

text \<open>
  \<^verbatim>\<open>def normalize_digits(value): return "".join(ch for ch in value if ch.isdigit())\<close>
\<close>

definition normalize_digits :: "unicode_tables \<Rightarrow> pystr \<Rightarrow> pystr" where
  "normalize_digits U v = filter (py_isdigit U) v"


section \<open>Selection of the winning OCR candidate\<close>

text \<open>
  \<^verbatim>\<open>user_code = max(candidates, key=lambda s: (len(s), s), default="")\<close>

  The key is a pair, and Python compares pairs by their first components unless these
  are equal, and by the second ones then. \<open>max\<close> walks the list from the left and
  replaces the item it holds only by one whose key is strictly greater; on the empty
  list it returns the default.
\<close>

definition cand_key :: "pystr \<Rightarrow> nat \<times> pystr" where
  "cand_key s = (length s, s)"

definition key_gt :: "nat \<times> pystr \<Rightarrow> nat \<times> pystr \<Rightarrow> bool" where
  "key_gt a b = (if fst a \<noteq> fst b then fst b < fst a else str_gt (snd a) (snd b))"

fun max_walk :: "pystr \<Rightarrow> pystr list \<Rightarrow> pystr" where
  "max_walk best [] = best"
| "max_walk best (s # ss) =
     max_walk (if key_gt (cand_key s) (cand_key best) then s else best) ss"

definition select_winner :: "pystr list \<Rightarrow> pystr" where
  "select_winner candidates =
     (case candidates of [] \<Rightarrow> [] | c # cs \<Rightarrow> max_walk c cs)"


section \<open>The browser driver, the image library and the operator\<close>

text \<open>
  Everything the script does to the world goes through Playwright, Pillow, pytesseract,
  the file system or the terminal. None of them is code of the repository: they are an
  environment the script talks to, and every property below holds for every environment.

  A call either returns a value or raises. All the handlers of the script are
  \<^verbatim>\<open>except Exception\<close> and never look at the exception, so one exception value is enough.
\<close>

datatype exn = PyException

text \<open>
  A Playwright locator is a description of how to find elements; building one touches
  nothing on the page and cannot fail. \<open>Nth l i\<close> is the \<open>i\<close>-th element of \<open>l.all()\<close>.
\<close>

datatype locator =
    GetByRole pystr "pystr option"
  | GetByLabel pystr bool
  | GetByText pystr bool
  | GetByPlaceholder pystr
  | Css pystr
  | Sub locator pystr
  | First locator
  | Nth locator nat
  | FilterHasText locator "pystr option"

text \<open>
  Numbers of a bounding box: Python \<open>int\<close> or \<open>float\<close>. Floating point arithmetic is
  not modelled; its operations are a parameter, and no property below depends on them.
\<close>

datatype 'f num = PyInt int | PyFloat 'f

record 'f float_ops =
  f_of_int :: "int \<Rightarrow> 'f"
  f_add :: "'f \<Rightarrow> 'f \<Rightarrow> 'f"
  f_sub :: "'f \<Rightarrow> 'f \<Rightarrow> 'f"
  f_mul :: "'f \<Rightarrow> 'f \<Rightarrow> 'f"
  f_div :: "'f \<Rightarrow> 'f \<Rightarrow> 'f"
  f_lt :: "'f \<Rightarrow> 'f \<Rightarrow> bool"
  f_trunc :: "'f \<Rightarrow> int"

record 'f box =
  box_x :: "'f num"
  box_y :: "'f num"
  box_width :: "'f num"
  box_height :: "'f num"

text \<open>A grayscale image (Pillow mode \<open>L\<close>): rows of intensities from 0 to 255.\<close>

type_synonym gray = "nat list list"

text \<open>
  The calls the script makes. A timeout is the \<open>timeout=\<close> argument in milliseconds;
  \<open>None\<close> where the source passes none and the page's default applies.
\<close>

datatype call =
    WaitFor locator pystr int
  | Click locator "int option"
  | Fill locator pystr "int option"
  | Check locator int
  | Press locator pystr
  | ScrollIntoView locator
  | SelectOption locator pystr
  | SelectOptionLabel locator pystr
  | IsChecked locator
  | IsDisabled locator
  | GetAttribute locator pystr
  | InnerText locator
  | BoundingBox locator
  | Count locator
  | AllOf locator
  | ElemScreenshot locator pystr
  | PageScreenshot pystr bool
  | Content
  | Evaluate pystr "locator option"
  | WaitForTimeout int
  | Sleep_ms int
  | WriteFile pystr pystr
  | Input pystr
  | ImageOpen pystr
  | ImageSave gray pystr
  | ImageToString gray pystr

text \<open>
  The environment: one answering function for each type of result, over a state \<open>'w\<close>
  of the world that every call may change; the pure operations of Pillow and the
  recognition engine; and which of the optional modules were imported.
\<close>

record ('w, 'f, 'pic) env =
  do_unit :: "call \<Rightarrow> 'w \<Rightarrow> (exn + unit) \<times> 'w"
  do_bool :: "call \<Rightarrow> 'w \<Rightarrow> (exn + bool) \<times> 'w"
  do_str :: "call \<Rightarrow> 'w \<Rightarrow> (exn + pystr) \<times> 'w"
  do_ostr :: "call \<Rightarrow> 'w \<Rightarrow> (exn + pystr option) \<times> 'w"
  do_nat :: "call \<Rightarrow> 'w \<Rightarrow> (exn + nat) \<times> 'w"
  do_box :: "call \<Rightarrow> 'w \<Rightarrow> (exn + 'f box option) \<times> 'w"
  do_pic :: "call \<Rightarrow> 'w \<Rightarrow> (exn + 'pic) \<times> 'w"
  image_to_string :: "gray \<Rightarrow> pystr \<Rightarrow> exn + pystr"
  pil_convert_L :: "'pic \<Rightarrow> gray"
  pil_crop :: "'pic \<Rightarrow> int \<times> int \<times> int \<times> int \<Rightarrow> exn + 'pic"
  pil_rotate :: "gray \<Rightarrow> int \<Rightarrow> gray"
  floats :: "'f float_ops"
  unicode :: unicode_tables
  have_Image :: bool
  have_pytesseract :: bool


section \<open>Programs: results, exceptions and the trace of calls\<close>

text \<open>
  An event is a call together with whether it returned (\<open>True\<close>) or raised. A program
  maps the world to its result (a value, or the exception that left it), the events it
  caused in order, and the new world.
\<close>

datatype event = Ev call bool

type_synonym ('w, 'a) prog = "'w \<Rightarrow> (exn + 'a) \<times> event list \<times> 'w"

definition result_of :: "(exn + 'a) \<times> event list \<times> 'w \<Rightarrow> exn + 'a" where
  "result_of r = fst r"

definition trace_of :: "(exn + 'a) \<times> event list \<times> 'w \<Rightarrow> event list" where
  "trace_of r = fst (snd r)"

definition world_of :: "(exn + 'a) \<times> event list \<times> 'w \<Rightarrow> 'w" where
  "world_of r = snd (snd r)"

definition ret :: "'a \<Rightarrow> ('w, 'a) prog" where
  "ret x w = (Inr x, [], w)"

text \<open>\<open>bnd m f\<close>: run \<open>m\<close>, then \<open>f\<close> on its value; an exception of \<open>m\<close> skips \<open>f\<close>.\<close>

definition bnd :: "('w, 'a) prog \<Rightarrow> ('a \<Rightarrow> ('w, 'b) prog) \<Rightarrow> ('w, 'b) prog" where
  "bnd m f w =
     (case m w of
        (Inl e, t, w') \<Rightarrow> (Inl e, t, w')
      | (Inr x, t, w') \<Rightarrow> (case f x w' of (r, t', w'') \<Rightarrow> (r, t @ t', w'')))"

text \<open>\<^verbatim>\<open>try: m  except Exception: h\<close>\<close>

definition attempt :: "('w, 'a) prog \<Rightarrow> ('w, 'a) prog \<Rightarrow> ('w, 'a) prog" where
  "attempt m h w =
     (case m w of
        (Inl e, t, w') \<Rightarrow> (case h w' of (r, t', w'') \<Rightarrow> (r, t @ t', w''))
      | (Inr x, t, w') \<Rightarrow> (Inr x, t, w'))"

text \<open>One call to the environment, recorded in the trace.\<close>

definition perform :: "(call \<Rightarrow> 'w \<Rightarrow> (exn + 'a) \<times> 'w) \<Rightarrow> call \<Rightarrow> ('w, 'a) prog" where
  "perform answer c w = (case answer c w of (r, w') \<Rightarrow> (r, [Ev c (\<not> isl r)], w'))"

text \<open>
  The recognition engine is a function of the image; the call is recorded in the trace
  and leaves the world as it is.
\<close>

definition recognize :: "('w, 'f, 'pic) env \<Rightarrow> gray \<Rightarrow> pystr \<Rightarrow> ('w, pystr) prog" where
  "recognize E img config w =
     (image_to_string E img config,
      [Ev (ImageToString img config) (\<not> isl (image_to_string E img config))], w)"

text \<open>A library function that only computes, and may raise.\<close>

definition pure_call :: "exn + 'a \<Rightarrow> ('w, 'a) prog" where
  "pure_call r w = (r, [], w)"

text \<open>\<open>loc.all()\<close>: the elements the locator matches now, in document order.\<close>

definition all_of :: "('w, 'f, 'pic) env \<Rightarrow> locator \<Rightarrow> ('w, locator list) prog" where
  "all_of E loc = bnd (perform (do_nat E) (AllOf loc)) (\<lambda>n. ret (map (Nth loc) [0..<n]))"


section \<open>Text of the page the script looks for\<close>

text \<open>The labels are Traditional Chinese; each is given by its code points.\<close>

definition lbl_next_step :: pystr where
  "lbl_next_step = [0x4E0B, 0x4E00, 0x6B65]"

definition lbl_next_stage :: pystr where
  "lbl_next_stage = [0x4E0B, 0x4E00, 0x6B65, 0x9A5F]"

definition lbl_next_page :: pystr where
  "lbl_next_page = [0x4E0B, 0x4E00, 0x9801]"

definition lbl_i_agree :: pystr where
  "lbl_i_agree = [0x6211, 0x540C, 0x610F]"

definition lbl_read_and_agree :: pystr where
  "lbl_read_and_agree = [0x6211, 0x5DF2, 0x95B1, 0x8B80, 0x4E26, 0x540C, 0x610F]"

definition lbl_confirm :: pystr where
  "lbl_confirm = [0x78BA, 0x8A8D]"

definition lbl_ok :: pystr where
  "lbl_ok = [0x78BA, 0x5B9A]"

definition lbl_submit :: pystr where
  "lbl_submit = [0x9001, 0x51FA]"

definition lbl_start_buying :: pystr where
  "lbl_start_buying = [0x958B, 0x59CB, 0x8CFC, 0x7968]"

definition lbl_agree_continue :: pystr where
  "lbl_agree_continue = [0x540C, 0x610F, 0x4E26, 0x7E7C, 0x7E8C]"

definition lbl_add_to_cart :: pystr where
  "lbl_add_to_cart = [0x52A0, 0x5165, 0x8CFC, 0x7269, 0x8ECA]"

definition lbl_checkout_now :: pystr where
  "lbl_checkout_now = [0x7ACB, 0x5373, 0x7D50, 0x5E33]"

definition lbl_go_next_step :: pystr where
  "lbl_go_next_step = [0x524D, 0x5F80, 0x4E0B, 0x4E00, 0x6B65]"

definition lbl_i_want_tickets :: pystr where
  "lbl_i_want_tickets = [0x6211, 0x8981, 0x8CFC, 0x7968]"

definition lbl_confirm_quantity :: pystr where
  "lbl_confirm_quantity = [0x78BA, 0x8A8D, 0x5F35, 0x6578]"

definition lbl_confirm_amount :: pystr where
  "lbl_confirm_amount = [0x78BA, 0x8A8D, 0x6578, 0x91CF]"

definition lbl_start_countdown :: pystr where
  "lbl_start_countdown = [0x958B, 0x59CB, 0x5012, 0x6578, 0x8A08, 0x6642]"

definition lbl_buy_now :: pystr where
  "lbl_buy_now = [0x7ACB, 0x5373, 0x8CFC, 0x7968]"

definition lbl_order_now :: pystr where
  "lbl_order_now = [0x7ACB, 0x5373, 0x8A02, 0x8CFC]"

definition txt_second :: pystr where
  "txt_second = [0x79D2]"

definition txt_captcha :: pystr where
  "txt_captcha = [0x9A57, 0x8B49, 0x78BC]"

definition txt_verify :: pystr where
  "txt_verify = [0x9A57, 0x8B49]"

definition txt_terms_read_agree :: pystr where
  "txt_terms_read_agree = [0x6211, 0x5DF2, 0x8A73, 0x7D30, 0x95B1, 0x8B80, 0x4E14, 0x540C, 0x610F]"

definition txt_member_terms :: pystr where
  "txt_member_terms = [0x6703, 0x54E1, 0x670D, 0x52D9, 0x689D, 0x6B3E]"

definition txt_agree :: pystr where
  "txt_agree = [0x540C, 0x610F]"

definition mark_order_created :: pystr where
  "mark_order_created = [0x8A02, 0x55AE, 0x5EFA, 0x7ACB]"

definition mark_purchase_done :: pystr where
  "mark_purchase_done = [0x8CFC, 0x7968, 0x5B8C, 0x6210]"

definition mark_completed :: pystr where
  "mark_completed = [0x5DF2, 0x5B8C, 0x6210]"

definition mark_best_record :: pystr where
  "mark_best_record = [0x672C, 0x6B21, 0x6700, 0x4F73, 0x7D00, 0x9304]"

definition prompt_captcha :: pystr where
  "prompt_captcha =
     asc ''[auto-buy] '' @ [0x8ACB, 0x8F38, 0x5165, 0x9801, 0x9762, 0x4E0A, 0x7684, 0x9A57,
       0x8B49, 0x78BC, 0x5F8C, 0x6309] @ asc '' Enter'' @ [0xFF1A, 0x20]"


section \<open>The click step\<close>

text \<open>
  \<^verbatim>\<open>
  def click_if_visible(page, text, timeout_ms):
      try:
          locator = page.get_by_role("button", name=text)
          locator.first.wait_for(state="visible", timeout=timeout_ms)
          locator.first.click()
          return True
      except Exception:
          try:
              page.get_by_text(text, exact=True).first.click(timeout=timeout_ms)
              return True
          except Exception:
              return False
  \<close>
\<close>

definition role_button :: "pystr \<Rightarrow> locator" where
  "role_button text = First (GetByRole (asc ''button'') (Some text))"

definition exact_text :: "pystr \<Rightarrow> locator" where
  "exact_text text = First (GetByText text True)"

definition click_if_visible :: "('w, 'f, 'pic) env \<Rightarrow> pystr \<Rightarrow> int \<Rightarrow> ('w, bool) prog" where
  "click_if_visible E text timeout_ms =
     attempt
       (bnd (perform (do_unit E) (WaitFor (role_button text) (asc ''visible'') timeout_ms)) (\<lambda>_.
        bnd (perform (do_unit E) (Click (role_button text) None)) (\<lambda>_.
        ret True)))
       (attempt
          (bnd (perform (do_unit E) (Click (exact_text text) (Some timeout_ms))) (\<lambda>_.
           ret True))
          (ret False))"


section \<open>The generic advance loop\<close>

text \<open>
  \<open>navigate_purchase_flow\<close>, lines 480 to 586. One iteration of its
  \<^verbatim>\<open>for _ in range(20)\<close> is \<open>nav_iteration\<close>, built from the parts below in the order of
  the source.
\<close>

definition common_next_labels :: "pystr list" where
  "common_next_labels =
     [lbl_next_step, lbl_next_stage, lbl_next_page, lbl_i_agree, lbl_read_and_agree,
      lbl_confirm, lbl_ok, lbl_submit, lbl_start_buying, lbl_agree_continue]"

definition action_labels :: "pystr list" where
  "action_labels =
     [lbl_add_to_cart, lbl_checkout_now, lbl_next_step, lbl_next_stage, lbl_i_agree,
      lbl_read_and_agree, lbl_confirm, lbl_ok, lbl_submit, lbl_go_next_step,
      lbl_agree_continue, lbl_i_want_tickets]"

definition success_texts :: "pystr list" where
  "success_texts = [mark_order_created, mark_purchase_done, mark_completed, mark_best_record]"

definition placeholder_values :: "pystr list" where
  "placeholder_values = [[], asc ''0'', asc ''-1'']"

text \<open>
  \<^verbatim>\<open>
  for opt in options:
      try:
          disabled = opt.is_disabled()
          value = opt.get_attribute("value")
      except Exception:
          disabled = True
          value = None
      if not disabled and value and value not in ("", "0", "-1"):
          select_box.select_option(value)
          break
  \<close>
\<close>

primrec pick_first_option :: "('w, 'f, 'pic) env \<Rightarrow> locator \<Rightarrow> locator list \<Rightarrow> ('w, unit) prog" where
  "pick_first_option E select_box [] = ret ()"
| "pick_first_option E select_box (opt # opts) =
     bnd (attempt
            (bnd (perform (do_bool E) (IsDisabled opt)) (\<lambda>disabled.
             bnd (perform (do_ostr E) (GetAttribute opt (asc ''value''))) (\<lambda>v.
             ret (disabled, v))))
            (ret (True, None)))
       (\<lambda>dv. case snd dv of
                None \<Rightarrow> pick_first_option E select_box opts
              | Some v \<Rightarrow>
                  if \<not> fst dv \<and> v \<noteq> [] \<and> v \<notin> set placeholder_values
                  then perform (do_unit E) (SelectOption select_box v)
                  else pick_first_option E select_box opts)"

text \<open>
  \<^verbatim>\<open>
  for select_box in select_boxes:
      try:
          is_disabled = select_box.is_disabled()
      except Exception:
          is_disabled = False
      if not is_disabled:
          options = select_box.locator("option").all()
          for opt in options: ...
  \<close>
\<close>

primrec for_select_boxes :: "('w, 'f, 'pic) env \<Rightarrow> locator list \<Rightarrow> ('w, unit) prog" where
  "for_select_boxes E [] = ret ()"
| "for_select_boxes E (select_box # rest) =
     bnd (attempt (perform (do_bool E) (IsDisabled select_box)) (ret False)) (\<lambda>is_disabled.
     bnd (if \<not> is_disabled
          then bnd (all_of E (Sub select_box (asc ''option''))) (pick_first_option E select_box)
          else ret ()) (\<lambda>_.
     for_select_boxes E rest))"

text \<open>The whole selection part sits in a \<^verbatim>\<open>try\<close> whose handler is \<^verbatim>\<open>pass\<close>.\<close>

definition auto_select :: "('w, 'f, 'pic) env \<Rightarrow> ('w, unit) prog" where
  "auto_select E =
     attempt (bnd (all_of E (Css (asc ''select''))) (for_select_boxes E)) (ret ())"

text \<open>
  \<^verbatim>\<open>
  progressed = False
  for label in [...]:
      if click_if_visible(page, label, timeout_ms=800):
          progressed = True
          page.wait_for_timeout(400)
          break
  \<close>
  The wait is outside every \<^verbatim>\<open>try\<close>: an exception of it leaves the function.
\<close>

primrec click_first_label :: "('w, 'f, 'pic) env \<Rightarrow> pystr list \<Rightarrow> ('w, bool) prog" where
  "click_first_label E [] = ret False"
| "click_first_label E (label # rest) =
     bnd (click_if_visible E label 800) (\<lambda>clicked.
     if clicked
     then bnd (perform (do_unit E) (WaitForTimeout 400)) (\<lambda>_. ret True)
     else click_first_label E rest)"

text \<open>
  \<^verbatim>\<open>
  try:
      link = page.get_by_role("link", name="...")
      link.first.click(timeout=500)
      progressed = True
      page.wait_for_timeout(300)
  except Exception:
      pass
  \<close>
  \<open>progressed\<close> is set before the wait, so it stays set when the wait raises.
\<close>

definition click_next_link :: "('w, 'f, 'pic) env \<Rightarrow> ('w, bool) prog" where
  "click_next_link E =
     attempt
       (bnd (perform (do_unit E)
               (Click (First (GetByRole (asc ''link'') (Some lbl_next_step))) (Some 500))) (\<lambda>_.
        bnd (attempt (perform (do_unit E) (WaitForTimeout 300)) (ret ())) (\<lambda>_.
        ret True)))
       (ret False)"

text \<open>
  \<^verbatim>\<open>
  for btn in buttons:
      try:
          text = btn.inner_text().strip()
      except Exception:
          text = ""
      if text and any(k in text for k in common_next_labels):
          btn.click(timeout=500)
          progressed = True
          page.wait_for_timeout(300)
          break
  \<close>
  The loop is inside a \<^verbatim>\<open>try\<close> (see \<open>click_primary_button\<close>): a click that raises ends
  it with \<open>progressed\<close> unset, a wait that raises ends it with \<open>progressed\<close> set.
\<close>

primrec scan_buttons :: "('w, 'f, 'pic) env \<Rightarrow> locator list \<Rightarrow> ('w, bool) prog" where
  "scan_buttons E [] = ret False"
| "scan_buttons E (btn # rest) =
     bnd (attempt
            (bnd (perform (do_str E) (InnerText btn)) (\<lambda>s. ret (py_strip (unicode E) s)))
            (ret [])) (\<lambda>text.
     if text \<noteq> [] \<and> list_ex (\<lambda>k. str_in k text) common_next_labels
     then bnd (perform (do_unit E) (Click btn (Some 500))) (\<lambda>_.
          bnd (attempt (perform (do_unit E) (WaitForTimeout 300)) (ret ())) (\<lambda>_.
          ret True))
     else scan_buttons E rest)"

definition click_primary_button :: "('w, 'f, 'pic) env \<Rightarrow> ('w, bool) prog" where
  "click_primary_button E =
     attempt (bnd (all_of E (Css (asc ''button''))) (scan_buttons E)) (ret False)"

text \<open>The first half of an iteration: its value is \<open>progressed\<close>.\<close>

definition advance_actions :: "('w, 'f, 'pic) env \<Rightarrow> ('w, bool) prog" where
  "advance_actions E =
     bnd (auto_select E) (\<lambda>_.
     bnd (click_first_label E action_labels) (\<lambda>progressed.
     bnd (if \<not> progressed then click_next_link E else ret progressed) (\<lambda>progressed.
     if \<not> progressed then click_primary_button E else ret progressed)))"

text \<open>
  \<^verbatim>\<open>
  try:
      body_text = page.content()
      if any(s in body_text for s in success_texts):
          return
  except Exception:
      pass
  if not progressed:
      break
  \<close>
  How an iteration ends: the function returns, the loop is left, or the loop goes on.
\<close>

datatype loop_exit = Return | Break | Continue

definition success_found :: "('w, 'f, 'pic) env \<Rightarrow> ('w, bool) prog" where
  "success_found E =
     attempt
       (bnd (perform (do_str E) Content) (\<lambda>body_text.
        ret (list_ex (\<lambda>s. str_in s body_text) success_texts)))
       (ret False)"

definition exit_check :: "('w, 'f, 'pic) env \<Rightarrow> bool \<Rightarrow> ('w, loop_exit) prog" where
  "exit_check E progressed =
     bnd (success_found E) (\<lambda>found.
     ret (if found then Return else if \<not> progressed then Break else Continue))"

definition nav_iteration :: "('w, 'f, 'pic) env \<Rightarrow> ('w, loop_exit) prog" where
  "nav_iteration E = bnd (advance_actions E) (exit_check E)"

text \<open>\<open>nav_loop E n\<close>: the iterations of \<^verbatim>\<open>for _ in range(20)\<close> when \<open>n\<close> of them are left.\<close>

primrec nav_loop :: "('w, 'f, 'pic) env \<Rightarrow> nat \<Rightarrow> ('w, unit) prog" where
  "nav_loop E 0 = ret ()"
| "nav_loop E (Suc n) =
     bnd (nav_iteration E) (\<lambda>how.
     case how of Continue \<Rightarrow> nav_loop E n | Return \<Rightarrow> ret () | Break \<Rightarrow> ret ())"


text \<open>
  An iteration starts by listing the \<^verbatim>\<open>select\<close> elements of the page, and lists them
  nowhere else: the iterations a run went through are these calls in its trace.
\<close>

definition starts_iteration :: "event \<Rightarrow> bool" where
  "starts_iteration ev = (case ev of Ev c b \<Rightarrow> c = AllOf (Css (asc ''select'')))"

definition iterations :: "event list \<Rightarrow> nat" where
  "iterations t = length (filter starts_iteration t)"

text \<open>A click that returned.\<close>

definition click_returned :: "event \<Rightarrow> bool" where
  "click_returned ev = (case ev of Ev (Click l t) True \<Rightarrow> True | _ \<Rightarrow> False)"


section \<open>Countdown and buy\<close>

text \<open>
  \<open>start_countdown_and_buy\<close>, lines 119 to 149. The loop over the inputs:
  \<^verbatim>\<open>
  for input_box in inputs:
      try:
          placeholder = input_box.get_attribute("placeholder")
      except Exception:
          placeholder = None
      input_type = input_box.get_attribute("type")
      if input_type in ("number", None) or (placeholder and "..." in placeholder):
          input_box.fill(str(seconds))
          break
  \<close>
\<close>

primrec fill_seconds :: "('w, 'f, 'pic) env \<Rightarrow> int \<Rightarrow> locator list \<Rightarrow> ('w, unit) prog" where
  "fill_seconds E seconds [] = ret ()"
| "fill_seconds E seconds (input_box # rest) =
     bnd (attempt (perform (do_ostr E) (GetAttribute input_box (asc ''placeholder'')))
            (ret None)) (\<lambda>placeholder.
     bnd (perform (do_ostr E) (GetAttribute input_box (asc ''type''))) (\<lambda>input_type.
     if input_type = Some (asc ''number'') \<or> input_type = None
        \<or> (case placeholder of None \<Rightarrow> False | Some p \<Rightarrow> p \<noteq> [] \<and> str_in txt_second p)
     then perform (do_unit E) (Fill input_box (str_int seconds) None)
     else fill_seconds E seconds rest))"

text \<open>
  \<^verbatim>\<open>
  clicked = click_if_visible(page, <start countdown>, timeout_ms=1000)
  if clicked:
      time.sleep(max(0, seconds - 1))
      time.sleep(1.2)
  if not click_if_visible(page, <buy now>, timeout_ms=1000):
      click_if_visible(page, <order now>, timeout_ms=2000)
  \<close>
  all of it in a \<^verbatim>\<open>try\<close> whose handler is \<^verbatim>\<open>pass\<close>. Sleeps are in milliseconds.
\<close>

definition start_countdown_and_buy :: "('w, 'f, 'pic) env \<Rightarrow> int \<Rightarrow> int \<Rightarrow> ('w, unit) prog" where
  "start_countdown_and_buy E seconds timeout_ms =
     attempt
       (bnd (all_of E (Css (asc ''input''))) (\<lambda>inputs.
        bnd (fill_seconds E seconds inputs) (\<lambda>_.
        bnd (click_if_visible E lbl_start_countdown 1000) (\<lambda>clicked.
        bnd (if clicked
             then bnd (perform (do_unit E) (Sleep_ms (1000 * max 0 (seconds - 1)))) (\<lambda>_.
                  perform (do_unit E) (Sleep_ms 1200))
             else ret ()) (\<lambda>_.
        bnd (click_if_visible E lbl_buy_now 1000) (\<lambda>bought.
        if \<not> bought
        then bnd (click_if_visible E lbl_order_now 2000) (\<lambda>_. ret ())
        else ret ()))))))
       (ret ())"

text \<open>
  \<open>double_click_buy\<close>, lines 158 to 165:
  \<^verbatim>\<open>
  for _ in range(2):
      clicked = click_if_visible(page, <buy now>, timeout_ms=1200)
      if not clicked:
          click_if_visible(page, <order now>, timeout_ms=1200)
      page.wait_for_timeout(400)
  \<close>
\<close>

primrec buy_clicks :: "('w, 'f, 'pic) env \<Rightarrow> nat \<Rightarrow> ('w, unit) prog" where
  "buy_clicks E 0 = ret ()"
| "buy_clicks E (Suc n) =
     bnd (click_if_visible E lbl_buy_now 1200) (\<lambda>clicked.
     bnd (if \<not> clicked
          then bnd (click_if_visible E lbl_order_now 1200) (\<lambda>_. ret ())
          else ret ()) (\<lambda>_.
     bnd (perform (do_unit E) (WaitForTimeout 400)) (\<lambda>_.
     buy_clicks E n)))"

definition double_click_buy :: "('w, 'f, 'pic) env \<Rightarrow> ('w, unit) prog" where
  "double_click_buy E = buy_clicks E 2"


section \<open>Price and quantity\<close>

text \<open>
  \<open>select_price_and_quantity\<close>, lines 168 to 228. First the seat by price:
  \<^verbatim>\<open>
  if price_text:
      wanted_digits = normalize_digits(price_text)
      try:
          header = page.locator("h4").filter(has_text=price_text)
          if header.count() > 0:
              header.first.scroll_into_view_if_needed()
              category = header.first.locator("xpath=ancestor::*[@class='category'][1]")
              seat_first = category.locator(".seat-item").first
              seat_first.scroll_into_view_if_needed()
              seat_first.click(timeout=timeout_ms)
          else:
              any_price = page.get_by_text(price_text, exact=False).first
              any_price.scroll_into_view_if_needed()
              parent = any_price.locator("xpath=ancestor::*[self::div or self::li][1]")
              try:
                  parent.locator(".seat-item").first.click(timeout=timeout_ms)
              except Exception:
                  any_price.click(timeout=timeout_ms)
      except Exception:
          if wanted_digits:
              page.locator(f":text-matches('.*{wanted_digits}.*')").first.click(timeout=timeout_ms)
  \<close>
  The click of the last handler is in no \<^verbatim>\<open>try\<close>.
\<close>

definition price_header :: "pystr \<Rightarrow> locator" where
  "price_header price_text = FilterHasText (Css (asc ''h4'')) (Some price_text)"

definition seat_in_category :: "pystr \<Rightarrow> locator" where
  "seat_in_category price_text =
     First (Sub (Sub (First (price_header price_text))
                   (asc ''xpath=ancestor::*[@class='category'][1]''))
              (asc ''.seat-item''))"

definition any_price :: "pystr \<Rightarrow> locator" where
  "any_price price_text = First (GetByText price_text False)"

definition seat_near_price :: "pystr \<Rightarrow> locator" where
  "seat_near_price price_text =
     First (Sub (Sub (any_price price_text)
                   (asc ''xpath=ancestor::*[self::div or self::li][1]''))
              (asc ''.seat-item''))"

definition digits_anywhere :: "pystr \<Rightarrow> locator" where
  "digits_anywhere wanted_digits =
     First (Css (asc '':text-matches('.*'' @ wanted_digits @ asc ''.*')''))"

definition select_price :: "('w, 'f, 'pic) env \<Rightarrow> pystr \<Rightarrow> int \<Rightarrow> ('w, unit) prog" where
  "select_price E price_text timeout_ms =
     (if price_text \<noteq> []
      then attempt
             (bnd (perform (do_nat E) (Count (price_header price_text))) (\<lambda>n.
              if 0 < n
              then bnd (perform (do_unit E) (ScrollIntoView (First (price_header price_text)))) (\<lambda>_.
                   bnd (perform (do_unit E) (ScrollIntoView (seat_in_category price_text))) (\<lambda>_.
                   perform (do_unit E) (Click (seat_in_category price_text) (Some timeout_ms))))
              else bnd (perform (do_unit E) (ScrollIntoView (any_price price_text))) (\<lambda>_.
                   attempt
                     (perform (do_unit E) (Click (seat_near_price price_text) (Some timeout_ms)))
                     (perform (do_unit E) (Click (any_price price_text) (Some timeout_ms))))))
             (if normalize_digits (unicode E) price_text \<noteq> []
              then perform (do_unit E)
                     (Click (digits_anywhere (normalize_digits (unicode E) price_text))
                        (Some timeout_ms))
              else ret ())
      else ret ())"

text \<open>
  Then the quantity:
  \<^verbatim>\<open>
  if quantity and quantity > 0:
      try:
          selects = page.locator("select").all()
          for sel in selects:
              options = sel.locator("option").all()
              values = [opt.get_attribute("value") for opt in options]
              texts = []
              for opt in options:
                  try:
                      texts.append(opt.inner_text().strip())
                  except Exception:
                      texts.append("")
              target = str(quantity)
              if target in (values or []) or target in texts:
                  try:
                      sel.select_option(target)
                  except Exception:
                      sel.select_option(label=target)
                  break
      except Exception:
          pass
  \<close>
\<close>

primrec option_values :: "('w, 'f, 'pic) env \<Rightarrow> locator list \<Rightarrow> ('w, pystr option list) prog" where
  "option_values E [] = ret []"
| "option_values E (opt # rest) =
     bnd (perform (do_ostr E) (GetAttribute opt (asc ''value''))) (\<lambda>v.
     bnd (option_values E rest) (\<lambda>vs.
     ret (v # vs)))"

primrec option_texts :: "('w, 'f, 'pic) env \<Rightarrow> locator list \<Rightarrow> ('w, pystr list) prog" where
  "option_texts E [] = ret []"
| "option_texts E (opt # rest) =
     bnd (attempt
            (bnd (perform (do_str E) (InnerText opt)) (\<lambda>s. ret (py_strip (unicode E) s)))
            (ret [])) (\<lambda>t.
     bnd (option_texts E rest) (\<lambda>ts.
     ret (t # ts)))"

primrec choose_quantity :: "('w, 'f, 'pic) env \<Rightarrow> pystr \<Rightarrow> locator list \<Rightarrow> ('w, unit) prog" where
  "choose_quantity E target [] = ret ()"
| "choose_quantity E target (sel # rest) =
     bnd (all_of E (Sub sel (asc ''option''))) (\<lambda>options.
     bnd (option_values E options) (\<lambda>values.
     bnd (option_texts E options) (\<lambda>texts.
     if Some target \<in> set values \<or> target \<in> set texts
     then attempt
            (perform (do_unit E) (SelectOption sel target))
            (perform (do_unit E) (SelectOptionLabel sel target))
     else choose_quantity E target rest)))"

definition select_quantity :: "('w, 'f, 'pic) env \<Rightarrow> int \<Rightarrow> ('w, unit) prog" where
  "select_quantity E quantity =
     (if 0 < quantity
      then attempt
             (bnd (all_of E (Css (asc ''select''))) (choose_quantity E (str_int quantity)))
             (ret ())
      else ret ())"

definition select_price_and_quantity ::
    "('w, 'f, 'pic) env \<Rightarrow> pystr \<Rightarrow> int \<Rightarrow> int \<Rightarrow> ('w, unit) prog" where
  "select_price_and_quantity E price_text quantity timeout_ms =
     bnd (select_price E price_text timeout_ms) (\<lambda>_.
     bnd (perform (do_unit E) (WaitForTimeout 300)) (\<lambda>_.
     select_quantity E quantity))"

text \<open>The timeout a call was given, where it was given one.\<close>

definition timeout_of :: "call \<Rightarrow> int option" where
  "timeout_of c =
     (case c of
        WaitFor l s t \<Rightarrow> Some t
      | Click l t \<Rightarrow> t
      | Fill l v t \<Rightarrow> t
      | Check l t \<Rightarrow> Some t
      | _ \<Rightarrow> None)"

definition timeout_within :: "int \<Rightarrow> event \<Rightarrow> bool" where
  "timeout_within bound ev =
     (case ev of Ev c b \<Rightarrow> (case timeout_of c of None \<Rightarrow> True | Some t \<Rightarrow> t \<le> bound))"

definition timeouts_of :: "event list \<Rightarrow> int list" where
  "timeouts_of t = List.map_filter (\<lambda>ev. case ev of Ev c b \<Rightarrow> timeout_of c) t"


section \<open>Consent checkbox and debug capture\<close>

text \<open>
  \<open>save_debug\<close>, lines 28 to 38: a screenshot and the markup, each in its own
  \<^verbatim>\<open>try\<close> with the handler \<^verbatim>\<open>pass\<close>.
\<close>

definition save_debug :: "('w, 'f, 'pic) env \<Rightarrow> pystr \<Rightarrow> ('w, unit) prog" where
  "save_debug E name =
     bnd (attempt (perform (do_unit E) (PageScreenshot (name @ asc ''.png'') True)) (ret ())) (\<lambda>_.
     attempt
       (bnd (perform (do_str E) Content) (\<lambda>html.
        perform (do_unit E) (WriteFile (name @ asc ''.html'') html)))
       (ret ()))"

text \<open>
  \<open>agree_terms_if_present\<close>, lines 41 to 80. Its first part, whose value is whether the
  function returned there:
  \<^verbatim>\<open>
  try:
      cb = page.get_by_role("checkbox").first
      cb.wait_for(state="attached", timeout=500)
      try:
          checked = cb.is_checked()
      except Exception:
          checked = False
      if not checked:
          cb.scroll_into_view_if_needed()
          cb.check(timeout=800)
          return
  except Exception:
      pass
  \<close>
\<close>

definition role_checkbox :: locator where
  "role_checkbox = First (GetByRole (asc ''checkbox'') None)"

definition check_by_role :: "('w, 'f, 'pic) env \<Rightarrow> ('w, bool) prog" where
  "check_by_role E =
     attempt
       (bnd (perform (do_unit E) (WaitFor role_checkbox (asc ''attached'') 500)) (\<lambda>_.
        bnd (attempt (perform (do_bool E) (IsChecked role_checkbox)) (ret False)) (\<lambda>checked.
        if \<not> checked
        then bnd (perform (do_unit E) (ScrollIntoView role_checkbox)) (\<lambda>_.
             bnd (perform (do_unit E) (Check role_checkbox 800)) (\<lambda>_.
             ret True))
        else ret False)))
       (ret False)"

text \<open>
  \<^verbatim>\<open>
  for label_text in [...]:
      try:
          el = page.get_by_label(label_text, exact=False)
          el.first.check(timeout=800)
          return
      except Exception:
          continue
  \<close>
\<close>

primrec check_by_label :: "('w, 'f, 'pic) env \<Rightarrow> pystr list \<Rightarrow> ('w, bool) prog" where
  "check_by_label E [] = ret False"
| "check_by_label E (label_text # rest) =
     bnd (attempt
            (bnd (perform (do_unit E) (Check (First (GetByLabel label_text False)) 800)) (\<lambda>_.
             ret True))
            (ret False)) (\<lambda>done.
     if done then ret True else check_by_label E rest)"

definition consent_text :: locator where
  "consent_text = First (GetByText txt_member_terms False)"

definition agree_terms_if_present :: "('w, 'f, 'pic) env \<Rightarrow> ('w, unit) prog" where
  "agree_terms_if_present E =
     bnd (check_by_role E) (\<lambda>returned.
     if returned then ret ()
     else bnd (check_by_label E [txt_terms_read_agree, txt_member_terms, txt_agree]) (\<lambda>returned.
          if returned then ret ()
          else attempt
                 (bnd (perform (do_unit E) (ScrollIntoView consent_text)) (\<lambda>_.
                  perform (do_unit E)
                    (Check (First (Sub consent_text
                                     (asc ''xpath=preceding::input[@type='checkbox'][1]''))) 800)))
                 (ret ())))"


section \<open>Captcha recognition\<close>

text \<open>Arithmetic on the numbers of a box, as Python does it on \<open>int\<close> and \<open>float\<close>.\<close>

definition to_float :: "'f float_ops \<Rightarrow> 'f num \<Rightarrow> 'f" where
  "to_float F a = (case a of PyInt i \<Rightarrow> f_of_int F i | PyFloat x \<Rightarrow> x)"

definition num_add :: "'f float_ops \<Rightarrow> 'f num \<Rightarrow> 'f num \<Rightarrow> 'f num" where
  "num_add F a b =
     (case (a, b) of (PyInt i, PyInt j) \<Rightarrow> PyInt (i + j)
      | _ \<Rightarrow> PyFloat (f_add F (to_float F a) (to_float F b)))"

definition num_sub :: "'f float_ops \<Rightarrow> 'f num \<Rightarrow> 'f num \<Rightarrow> 'f num" where
  "num_sub F a b =
     (case (a, b) of (PyInt i, PyInt j) \<Rightarrow> PyInt (i - j)
      | _ \<Rightarrow> PyFloat (f_sub F (to_float F a) (to_float F b)))"

definition num_mul :: "'f float_ops \<Rightarrow> 'f num \<Rightarrow> 'f num \<Rightarrow> 'f num" where
  "num_mul F a b =
     (case (a, b) of (PyInt i, PyInt j) \<Rightarrow> PyInt (i * j)
      | _ \<Rightarrow> PyFloat (f_mul F (to_float F a) (to_float F b)))"

definition num_div :: "'f float_ops \<Rightarrow> 'f num \<Rightarrow> 'f num \<Rightarrow> 'f num" where
  "num_div F a b = PyFloat (f_div F (to_float F a) (to_float F b))"

definition num_lt :: "'f float_ops \<Rightarrow> 'f num \<Rightarrow> 'f num \<Rightarrow> bool" where
  "num_lt F a b =
     (case (a, b) of (PyInt i, PyInt j) \<Rightarrow> i < j
      | _ \<Rightarrow> f_lt F (to_float F a) (to_float F b))"

definition py_int :: "'f float_ops \<Rightarrow> 'f num \<Rightarrow> int" where
  "py_int F a = (case a of PyInt i \<Rightarrow> i | PyFloat x \<Rightarrow> f_trunc F x)"

text \<open>\<open>max(a, b)\<close>: the first argument unless the second is greater.\<close>

definition py_max :: "'f float_ops \<Rightarrow> 'f num \<Rightarrow> 'f num \<Rightarrow> 'f num" where
  "py_max F a b = (if num_lt F a b then b else a)"

text \<open>
  \<^verbatim>\<open>
  dx = (b["x"] + b["width"] / 2) - (inp_box["x"] + inp_box["width"] / 2)
  dy = (b["y"] + b["height"] / 2) - (inp_box["y"] + inp_box["height"] / 2)
  d2 = dx*dx + dy*dy
  \<close>
\<close>

definition center_dist2 :: "'f float_ops \<Rightarrow> 'f box \<Rightarrow> 'f box \<Rightarrow> 'f num" where
  "center_dist2 F b inp_box =
     (let dx = num_sub F (num_add F (box_x b) (num_div F (box_width b) (PyInt 2)))
                 (num_add F (box_x inp_box) (num_div F (box_width inp_box) (PyInt 2)));
          dy = num_sub F (num_add F (box_y b) (num_div F (box_height b) (PyInt 2)))
                 (num_add F (box_y inp_box) (num_div F (box_height inp_box) (PyInt 2)))
      in num_add F (num_mul F dx dx) (num_mul F dy dy))"

text \<open>
  \<^verbatim>\<open>
  crop_by_box = {"x": max(0, ib["x"] - 220), "y": max(0, ib["y"] - 10),
                 "width": 200, "height": max(40, int(ib["height"]))}
  \<close>
\<close>

definition near_input_region :: "'f float_ops \<Rightarrow> 'f box \<Rightarrow> 'f box" where
  "near_input_region F ib =
     \<lparr>box_x = py_max F (PyInt 0) (num_sub F (box_x ib) (PyInt 220)),
      box_y = py_max F (PyInt 0) (num_sub F (box_y ib) (PyInt 10)),
      box_width = PyInt 200,
      box_height = PyInt (max 40 (py_int F (box_height ib)))\<rparr>"

text \<open>
  \<^verbatim>\<open>
  left = max(0, int(crop_by_box["x"]) - 2)
  top = max(0, int(crop_by_box["y"]) - 2)
  right = int(crop_by_box["x"] + crop_by_box["width"]) + 2
  bottom = int(crop_by_box["y"]) + int(crop_by_box["height"]) + 2
  \<close>
\<close>

definition crop_rect :: "'f float_ops \<Rightarrow> 'f box \<Rightarrow> int \<times> int \<times> int \<times> int" where
  "crop_rect F cb =
     (max 0 (py_int F (box_x cb) - 2),
      max 0 (py_int F (box_y cb) - 2),
      py_int F (num_add F (box_x cb) (box_width cb)) + 2,
      py_int F (box_y cb) + py_int F (box_height cb) + 2)"

text \<open>The places where the captcha input is looked for, in the order of the source.\<close>

definition input_candidates :: "locator list" where
  "input_candidates =
     [GetByPlaceholder txt_captcha,
      Css (asc ''input[name*='captcha' i]''),
      Css (asc ''input[aria-label*='' @ [39] @ txt_captcha @ [39] @ asc '']''),
      GetByLabel txt_captcha False]"

text \<open>
  \<^verbatim>\<open>
  target_input = None
  for cand in input_candidates:
      try:
          target_input = cand.first
          target_input.wait_for(state="visible", timeout=800)
          break
      except Exception:
          target_input = None
  \<close>
\<close>

primrec find_captcha_input :: "('w, 'f, 'pic) env \<Rightarrow> locator list \<Rightarrow> ('w, locator option) prog" where
  "find_captcha_input E [] = ret None"
| "find_captcha_input E (cand # rest) =
     bnd (attempt
            (bnd (perform (do_unit E) (WaitFor (First cand) (asc ''visible'') 800)) (\<lambda>_.
             ret True))
            (ret False)) (\<lambda>visible.
     if visible then ret (Some (First cand)) else find_captcha_input E rest)"

text \<open>
  \<^verbatim>\<open>
  min_d = None
  for img_loc in imgs:
      try:
          b = img_loc.bounding_box()
      except Exception:
          b = None
      if not b or not inp_box:
          continue
      ...
      if min_d is None or d2 < min_d:
          min_d = d2
          captcha_img = img_loc
  \<close>
\<close>

primrec nearest_image ::
    "('w, 'f, 'pic) env \<Rightarrow> 'f box option \<Rightarrow> locator list \<Rightarrow> 'f num option \<Rightarrow> locator option
      \<Rightarrow> ('w, locator option) prog" where
  "nearest_image E inp_box [] min_d captcha_img = ret captcha_img"
| "nearest_image E inp_box (img_loc # rest) min_d captcha_img =
     bnd (attempt (perform (do_box E) (BoundingBox img_loc)) (ret None)) (\<lambda>b.
     case (b, inp_box) of
       (Some bb, Some ib) \<Rightarrow>
         (if (case min_d of None \<Rightarrow> True
              | Some d \<Rightarrow> num_lt (floats E) (center_dist2 (floats E) bb ib) d)
          then nearest_image E inp_box rest
                 (Some (center_dist2 (floats E) bb ib)) (Some img_loc)
          else nearest_image E inp_box rest min_d captcha_img)
     | _ \<Rightarrow> nearest_image E inp_box rest min_d captcha_img)"

definition verify_image :: locator where
  "verify_image =
     First (Css (asc ''img[alt*='' @ [39] @ txt_verify @ [39] @ asc ''], img[title*=''
                   @ [39] @ txt_verify @ [39] @ asc '']''))"

text \<open>
  Lines 262 to 287. Every call that can raise comes before \<open>captcha_img\<close> is first
  assigned, so the handler \<^verbatim>\<open>pass\<close> leaves it \<open>None\<close>.
\<close>

definition locate_captcha_image ::
    "('w, 'f, 'pic) env \<Rightarrow> locator option \<Rightarrow> ('w, locator option) prog" where
  "locate_captcha_image E target_input =
     attempt
       (bnd (case target_input of
               None \<Rightarrow> ret None
             | Some ti \<Rightarrow>
                 bnd (perform (do_unit E) (ScrollIntoView ti)) (\<lambda>_.
                 bnd (perform (do_box E) (BoundingBox ti)) (\<lambda>inp_box.
                 bnd (all_of E (Css (asc ''img''))) (\<lambda>imgs.
                 nearest_image E inp_box imgs None None)))) (\<lambda>captcha_img.
        ret (Some (case captcha_img of None \<Rightarrow> verify_image | Some i \<Rightarrow> i))))
       (ret None)"

text \<open>
  Lines 289 to 304; the value is \<open>(base, crop_by_box)\<close>.
  \<^verbatim>\<open>
  try:
      captcha_img.scroll_into_view_if_needed()
      captcha_img.screenshot(path="_captcha_crop.png")
      if Image:
          bw_src = Image.open("_captcha_crop.png").convert("L")
          base = bw_src
          crop_by_box = None
      else:
          crop_by_box = captcha_img.bounding_box()
  except Exception:
      box = captcha_img.bounding_box()
      if box:
          crop_by_box = box
  \<close>
\<close>

definition capture_element ::
    "('w, 'f, 'pic) env \<Rightarrow> locator \<Rightarrow> ('w, gray option \<times> 'f box option) prog" where
  "capture_element E captcha_img =
     attempt
       (bnd (perform (do_unit E) (ScrollIntoView captcha_img)) (\<lambda>_.
        bnd (perform (do_unit E) (ElemScreenshot captcha_img (asc ''_captcha_crop.png''))) (\<lambda>_.
        if have_Image E
        then bnd (perform (do_pic E) (ImageOpen (asc ''_captcha_crop.png''))) (\<lambda>pic.
             ret (Some (pil_convert_L E pic), None))
        else bnd (perform (do_box E) (BoundingBox captcha_img)) (\<lambda>box.
             ret (None, box)))))
       (bnd (perform (do_box E) (BoundingBox captcha_img)) (\<lambda>box.
        ret (None, box)))"

text \<open>
  Lines 306 to 318:
  \<^verbatim>\<open>
  if crop_by_box is None and target_input is not None:
      try:
          ib = target_input.bounding_box()
          if ib:
              crop_by_box = {...}
      except Exception:
          pass
  \<close>
\<close>

definition fallback_region ::
    "('w, 'f, 'pic) env \<Rightarrow> locator option \<Rightarrow> 'f box option \<Rightarrow> ('w, 'f box option) prog" where
  "fallback_region E target_input crop_by_box =
     (case (crop_by_box, target_input) of
        (None, Some ti) \<Rightarrow>
          attempt
            (bnd (perform (do_box E) (BoundingBox ti)) (\<lambda>ib.
             ret (map_option (near_input_region (floats E)) ib)))
            (ret None)
      | _ \<Rightarrow> ret crop_by_box)"

text \<open>
  \<open>ImageOps.invert\<close> on mode \<open>L\<close>, and
  \<^verbatim>\<open>inv.point(lambda p, t=th: 255 if p > t else 0, mode="1")\<close>.
\<close>

definition invert :: "gray \<Rightarrow> gray" where
  "invert img = map (map (\<lambda>p. 255 - p)) img"

definition binarize :: "nat \<Rightarrow> gray \<Rightarrow> gray" where
  "binarize th img = map (map (\<lambda>p. if th < p then 255 else 0)) img"

definition angles :: "int list" where
  "angles = [- 6, - 4, - 2, 0, 2, 4, 6]"

definition thresholds :: "nat list" where
  "thresholds = [115, 160]"

definition psm7 :: pystr where
  "psm7 = asc ''--psm 7''"

text \<open>
  Lines 331 to 343:
  \<^verbatim>\<open>
  candidates = []
  for angle in (-6, -4, -2, 0, 2, 4, 6):
      img_rot = base.rotate(angle, expand=True, fillcolor=255)
      inv = ImageOps.invert(img_rot)
      for th in (115, 160):
          bw = inv.point(lambda p, t=th: 255 if p > t else 0, mode="1")
          bw.save("_captcha_crop.png")
          raw = pytesseract.image_to_string(bw, config='--psm 7')
          text = "".join(ch for ch in raw if ch.isalnum())
          candidates.append(text)
  \<close>
  \<open>pil_rotate E img angle\<close> is \<open>img.rotate(angle, expand=True, fillcolor=255)\<close>.
\<close>

primrec threshold_loop ::
    "('w, 'f, 'pic) env \<Rightarrow> gray \<Rightarrow> nat list \<Rightarrow> pystr list \<Rightarrow> ('w, pystr list) prog" where
  "threshold_loop E inverted [] candidates = ret candidates"
| "threshold_loop E inverted (th # rest) candidates =
     bnd (perform (do_unit E) (ImageSave (binarize th inverted) (asc ''_captcha_crop.png''))) (\<lambda>_.
     bnd (recognize E (binarize th inverted) psm7) (\<lambda>raw.
     threshold_loop E inverted rest (candidates @ [filter (py_isalnum (unicode E)) raw])))"

primrec angle_loop ::
    "('w, 'f, 'pic) env \<Rightarrow> gray \<Rightarrow> int list \<Rightarrow> pystr list \<Rightarrow> ('w, pystr list) prog" where
  "angle_loop E base [] candidates = ret candidates"
| "angle_loop E base (angle # rest) candidates =
     bnd (threshold_loop E (invert (pil_rotate E base angle)) thresholds candidates)
       (angle_loop E base rest)"

definition gen_candidates :: "('w, 'f, 'pic) env \<Rightarrow> gray \<Rightarrow> ('w, pystr list) prog" where
  "gen_candidates E base = angle_loop E base angles []"

text \<open>
  Lines 238 to 353, the body of the outer \<^verbatim>\<open>try\<close>; its value is \<open>user_code\<close>. The image
  \<open>base\<close> that \<open>capture_element\<close> took is overwritten at line 329 before it is read.
\<close>

definition ocr_block :: "('w, 'f, 'pic) env \<Rightarrow> ('w, pystr) prog" where
  "ocr_block E =
     bnd (attempt (perform (do_unit E) (PageScreenshot (asc ''_before_captcha.png'') True))
            (ret ())) (\<lambda>_.
     bnd (find_captcha_input E input_candidates) (\<lambda>target_input.
     bnd (locate_captcha_image E target_input) (\<lambda>captcha_img.
     bnd (case captcha_img of
            None \<Rightarrow> ret (None, None)
          | Some ci \<Rightarrow> capture_element E ci) (\<lambda>base_and_box.
     bnd (fallback_region E target_input (snd base_and_box)) (\<lambda>crop_by_box.
     case crop_by_box of
       None \<Rightarrow> ret []
     | Some cb \<Rightarrow>
         bnd (perform (do_unit E) (PageScreenshot (asc ''_captcha_full.png'') True)) (\<lambda>_.
         bnd (perform (do_pic E) (ImageOpen (asc ''_captcha_full.png''))) (\<lambda>im.
         bnd (pure_call (pil_crop E im (crop_rect (floats E) cb))) (\<lambda>cropped.
         bnd (gen_candidates E (pil_convert_L E cropped)) (\<lambda>candidates.
         ret (select_winner candidates))))))))))"

text \<open>
  Lines 235 to 355: \<open>user_code\<close> after the recognition attempt.
  \<^verbatim>\<open>
  user_code = ""
  if pytesseract and Image:
      try:
          ...
      except Exception:
          log(...)
  \<close>
  \<open>user_code\<close> is assigned once, by the last statement of the \<^verbatim>\<open>try\<close> that can raise,
  so after an exception it is still empty.
\<close>

definition ocr_captcha :: "('w, 'f, 'pic) env \<Rightarrow> ('w, pystr) prog" where
  "ocr_captcha E =
     (if have_pytesseract E \<and> have_Image E
      then attempt (ocr_block E) (ret [])
      else ret [])"


section \<open>Captcha entry and confirmation\<close>

text \<open>
  Lines 363 to 385; the value is \<open>captcha_focused\<close>.
  \<^verbatim>\<open>
  filled = False
  for locator in [...]:
      try:
          target = locator.first
          target.scroll_into_view_if_needed()
          target.fill(user_code, timeout=800)
          captcha_focused = target
          filled = True
          break
      except Exception:
          continue
  if not filled:
      try:
          target = page.locator("input").first
          target.scroll_into_view_if_needed()
          target.fill(user_code, timeout=800)
          captcha_focused = target
      except Exception:
          pass
  \<close>
\<close>

primrec fill_first_input ::
    "('w, 'f, 'pic) env \<Rightarrow> pystr \<Rightarrow> locator list \<Rightarrow> ('w, locator option) prog" where
  "fill_first_input E user_code [] = ret None"
| "fill_first_input E user_code (loc # rest) =
     bnd (attempt
            (bnd (perform (do_unit E) (ScrollIntoView (First loc))) (\<lambda>_.
             bnd (perform (do_unit E) (Fill (First loc) user_code (Some 800))) (\<lambda>_.
             ret True)))
            (ret False)) (\<lambda>filled.
     if filled then ret (Some (First loc)) else fill_first_input E user_code rest)"

definition any_input :: locator where
  "any_input = First (Css (asc ''input''))"

definition fill_captcha :: "('w, 'f, 'pic) env \<Rightarrow> pystr \<Rightarrow> ('w, locator option) prog" where
  "fill_captcha E user_code =
     bnd (fill_first_input E user_code input_candidates) (\<lambda>captcha_focused.
     case captcha_focused of
       Some target \<Rightarrow> ret (Some target)
     | None \<Rightarrow>
         attempt
           (bnd (perform (do_unit E) (ScrollIntoView any_input)) (\<lambda>_.
            bnd (perform (do_unit E) (Fill any_input user_code (Some 800))) (\<lambda>_.
            ret (Some any_input))))
           (ret None))"

text \<open>
  Lines 392 to 398:
  \<^verbatim>\<open>
  try:
      if captcha_focused is not None:
          captcha_focused.press("Enter")
          page.wait_for_timeout(400)
  except Exception:
      pass
  \<close>
\<close>

definition press_enter :: "('w, 'f, 'pic) env \<Rightarrow> locator option \<Rightarrow> ('w, unit) prog" where
  "press_enter E captcha_focused =
     attempt
       (case captcha_focused of
          None \<Rightarrow> ret ()
        | Some target \<Rightarrow>
            bnd (perform (do_unit E) (Press target (asc ''Enter''))) (\<lambda>_.
            perform (do_unit E) (WaitForTimeout 400)))
       (ret ())"

definition confirm_labels :: "pystr list" where
  "confirm_labels =
     [lbl_confirm_quantity, lbl_confirm_amount, lbl_confirm, lbl_ok, lbl_submit,
      lbl_next_step, lbl_next_stage]"

text \<open>
  \<^verbatim>\<open>
  for label in confirm_labels:
      if click_if_visible(page, label, timeout_ms=1000):
          break
  else:
      ...
  \<close>
  The value is whether the loop was left by \<^verbatim>\<open>break\<close>.
\<close>

primrec click_confirm_label :: "('w, 'f, 'pic) env \<Rightarrow> pystr list \<Rightarrow> ('w, bool) prog" where
  "click_confirm_label E [] = ret False"
| "click_confirm_label E (label # rest) =
     bnd (click_if_visible E label 1000) (\<lambda>clicked.
     if clicked then ret True else click_confirm_label E rest)"

definition confirm_text :: locator where
  "confirm_text = First (GetByText lbl_confirm_quantity False)"

definition contains_text :: "pystr \<Rightarrow> pystr" where
  "contains_text k = asc ''contains(normalize-space(.),'' @ [39] @ k @ [39] @ asc '')''"

definition keyword_xpath :: pystr where
  "keyword_xpath =
     asc ''xpath=|//*[self::button or self::a or self::input]['' @
     contains_text lbl_confirm_quantity @ asc '' or '' @
     contains_text lbl_confirm @ asc '' or '' @
     contains_text lbl_ok @ asc '' or '' @
     contains_text lbl_submit @ asc '' or '' @
     contains_text lbl_next_step @ asc '']''"

definition keyword_button :: locator where
  "keyword_button = First (Css keyword_xpath)"

text \<open>
  The \<^verbatim>\<open>else\<close> of the loop, lines 415 to 445:
  \<^verbatim>\<open>
  try:
      el = page.get_by_text(<confirm quantity>, exact=False).first
      el.scroll_into_view_if_needed()
      el.click(timeout=800)
  except Exception:
      try:
          page.evaluate("window.scrollTo(0, document.body.scrollHeight)")
          page.wait_for_timeout(200)
          candidates = page.locator(...).filter(has_text=None)
          btn = page.locator(keyword_xpath).first
          btn.scroll_into_view_if_needed()
          btn.click(timeout=1200)
      except Exception:
          pass
  \<close>
  \<open>candidates\<close> is a locator that is built and never used.
\<close>

definition click_keyword_button :: "('w, 'f, 'pic) env \<Rightarrow> ('w, unit) prog" where
  "click_keyword_button E =
     attempt
       (bnd (perform (do_unit E)
               (Evaluate (asc ''window.scrollTo(0, document.body.scrollHeight)'') None)) (\<lambda>_.
        bnd (perform (do_unit E) (WaitForTimeout 200)) (\<lambda>_.
        bnd (perform (do_unit E) (ScrollIntoView keyword_button)) (\<lambda>_.
        perform (do_unit E) (Click keyword_button (Some 1200))))))
       (ret ())"

definition click_confirm_text :: "('w, 'f, 'pic) env \<Rightarrow> ('w, unit) prog" where
  "click_confirm_text E =
     attempt
       (bnd (perform (do_unit E) (ScrollIntoView confirm_text)) (\<lambda>_.
        perform (do_unit E) (Click confirm_text (Some 800))))
       (click_keyword_button E)"

text \<open>
  Lines 454 to 477:
  \<^verbatim>\<open>
  try:
      form = page.locator("form").first
      form.scroll_into_view_if_needed()
      try:
          submit_btn = form.locator("button[type='submit'], input[type='submit']").first
          submit_btn.click(timeout=800)
      except Exception:
          page.evaluate("(f)=>{try{f.requestSubmit?f.requestSubmit():f.submit()}catch(e){}}", form)
  except Exception:
      pass
      try:
          page.screenshot(path="step10_confirm_not_found.png", full_page=True)
      except Exception:
          pass
  \<close>
\<close>

definition first_form :: locator where
  "first_form = First (Css (asc ''form''))"

definition submit_button :: locator where
  "submit_button = First (Sub first_form (asc ''button[type='submit'], input[type='submit']''))"

definition submit_script :: pystr where
  "submit_script = asc ''(f)=>{try{f.requestSubmit?f.requestSubmit():f.submit()}catch(e){}}''"

definition submit_form :: "('w, 'f, 'pic) env \<Rightarrow> ('w, unit) prog" where
  "submit_form E =
     attempt
       (bnd (perform (do_unit E) (ScrollIntoView first_form)) (\<lambda>_.
        attempt
          (perform (do_unit E) (Click submit_button (Some 800)))
          (perform (do_unit E) (Evaluate submit_script (Some first_form)))))
       (attempt
          (perform (do_unit E) (PageScreenshot (asc ''step10_confirm_not_found.png'') True))
          (ret ()))"

text \<open>
  Step 10, lines 388 to 477, in the order of the source: the consent checkbox, Enter on
  the captcha field, the confirmation labels with the \<^verbatim>\<open>else\<close> of their loop, the debug
  capture, the form.
\<close>

definition confirm_step :: "('w, 'f, 'pic) env \<Rightarrow> locator option \<Rightarrow> ('w, unit) prog" where
  "confirm_step E captcha_focused =
     bnd (agree_terms_if_present E) (\<lambda>_.
     bnd (press_enter E captcha_focused) (\<lambda>_.
     bnd (click_confirm_label E confirm_labels) (\<lambda>clicked.
     bnd (if clicked then ret () else click_confirm_text E) (\<lambda>_.
     bnd (attempt (save_debug E (asc ''step10_confirm_not_found'')) (ret ())) (\<lambda>_.
     submit_form E)))))"

text \<open>
  \<open>fill_captcha_and_confirm\<close>, lines 231 to 477.
  \<^verbatim>\<open>
  if not user_code:
      user_code = input("...").strip()
  captcha_focused = None
  if user_code:
      ...
  \<close>
\<close>

definition obtain_code :: "('w, 'f, 'pic) env \<Rightarrow> ('w, pystr) prog" where
  "obtain_code E =
     bnd (ocr_captcha E) (\<lambda>user_code.
     if user_code = []
     then bnd (perform (do_str E) (Input prompt_captcha)) (\<lambda>typed.
          ret (py_strip (unicode E) typed))
     else ret user_code)"

definition fill_captcha_and_confirm :: "('w, 'f, 'pic) env \<Rightarrow> int \<Rightarrow> ('w, unit) prog" where
  "fill_captcha_and_confirm E timeout_ms =
     bnd (obtain_code E) (\<lambda>user_code.
     bnd (if user_code \<noteq> [] then fill_captcha E user_code else ret None) (\<lambda>captcha_focused.
     confirm_step E captcha_focused))"


section \<open>Notions for stating what a program does\<close>

text \<open>\<open>emits P m\<close>: every event \<open>m\<close> causes, in every world, satisfies \<open>P\<close>.\<close>

definition emits :: "(event \<Rightarrow> bool) \<Rightarrow> ('w, 'a) prog \<Rightarrow> bool" where
  "emits P m = (\<forall>w. list_all P (trace_of (m w)))"

text \<open>\<open>never_raises m\<close>: in no world does an exception leave \<open>m\<close>.\<close>

definition never_raises :: "('w, 'a) prog \<Rightarrow> bool" where
  "never_raises m = (\<forall>w. \<not> isl (result_of (m w)))"

text \<open>\<open>quiet\<close>: an event that is not the start of an iteration.\<close>

definition quiet :: "event \<Rightarrow> bool" where
  "quiet ev = (\<not> starts_iteration ev)"

text \<open>\<open>no_click\<close>: an event that is not a click that returned.\<close>

definition no_click :: "event \<Rightarrow> bool" where
  "no_click ev = (\<not> click_returned ev)"

text \<open>\<open>failed\<close>: a call that raised.\<close>

definition failed :: "event \<Rightarrow> bool" where
  "failed ev = (case ev of Ev c b \<Rightarrow> \<not> b)"

text \<open>
  The candidates as the specification describes them. The grid is every angle with every
  threshold, angles outermost; the image for a pair is the base image rotated by the
  angle, inverted, and made black where the intensity is at most the threshold and white
  elsewhere; the candidate of an image is what the engine reads on it in single line
  mode, without the characters that are not alphanumeric.
\<close>

definition grid :: "(int \<times> nat) list" where
  "grid = List.product angles thresholds"

definition black_or_white :: "nat \<Rightarrow> nat \<Rightarrow> nat" where
  "black_or_white th p = (if p \<le> th then 0 else 255)"

definition transformed :: "('w, 'f, 'pic) env \<Rightarrow> gray \<Rightarrow> int \<times> nat \<Rightarrow> gray" where
  "transformed E base pair =
     map (map (black_or_white (snd pair)))
       (map (map (\<lambda>p. 255 - p)) (pil_rotate E base (fst pair)))"

definition candidate_of :: "('w, 'f, 'pic) env \<Rightarrow> gray \<Rightarrow> pystr \<Rightarrow> bool" where
  "candidate_of E img c =
     (case image_to_string E img psm7 of
        Inl e \<Rightarrow> False
      | Inr raw \<Rightarrow> c = filter (py_isalnum (unicode E)) raw)"

definition recognition_calls :: "gray \<Rightarrow> event list" where
  "recognition_calls img =
     [Ev (ImageSave img (asc ''_captcha_crop.png'')) True, Ev (ImageToString img psm7) True]"

text \<open>
  Events of the captcha step. \<open>observes\<close>: a call that neither fills a field, nor presses
  a key, nor clicks.
\<close>

definition observes :: "call \<Rightarrow> bool" where
  "observes c = (case c of Fill l v t \<Rightarrow> False | Press l k \<Rightarrow> False | Click l t \<Rightarrow> False | _ \<Rightarrow> True)"

definition watching :: "event \<Rightarrow> bool" where
  "watching ev = (case ev of Ev c b \<Rightarrow> observes c)"

definition fill_attempt :: "event \<Rightarrow> bool" where
  "fill_attempt ev = (case ev of Ev (Fill l v t) b \<Rightarrow> True | _ \<Rightarrow> False)"

definition fill_returned :: "event \<Rightarrow> bool" where
  "fill_returned ev = (case ev of Ev (Fill l v t) b \<Rightarrow> b | _ \<Rightarrow> False)"

definition fills_value :: "pystr \<Rightarrow> event \<Rightarrow> bool" where
  "fills_value code ev = (case ev of Ev (Fill l v t) b \<Rightarrow> v = code | _ \<Rightarrow> True)"

definition enter_returned :: "event \<Rightarrow> bool" where
  "enter_returned ev = (case ev of Ev (Press l k) b \<Rightarrow> b | _ \<Rightarrow> False)"

text \<open>
  \<open>tier_click\<close>: a click that returned on anything but the submit button of the form,
  that is, on a control of the label, text or keyword tier.
\<close>

definition tier_click :: "event \<Rightarrow> bool" where
  "tier_click ev = (case ev of Ev (Click l t) b \<Rightarrow> b \<and> l \<noteq> submit_button | _ \<Rightarrow> False)"



text \<open>\<open>fill_calm\<close>: an event that is neither Enter that returned nor a click of a tier.\<close>

definition fill_calm :: "event \<Rightarrow> bool" where
  "fill_calm ev = (\<not> enter_returned ev \<and> \<not> tier_click ev)"

text \<open>
  \<open>tier_bound k m\<close>: a run of \<open>m\<close> attempts no fill, has no Enter that returned and at
  most \<open>k\<close> clicks of a tier, none at all when it raises.
\<close>

definition tier_bound :: "nat \<Rightarrow> ('w, 'a) prog \<Rightarrow> bool" where
  "tier_bound k m =
     (\<forall>w. \<not> list_ex fill_attempt (trace_of (m w))
          \<and> filter enter_returned (trace_of (m w)) = []
          \<and> length (filter tier_click (trace_of (m w))) \<le> k
          \<and> (isl (result_of (m w)) \<longrightarrow> filter tier_click (trace_of (m w)) = []))"

text \<open>\<open>timed_in ts ev\<close>: the call was given no timeout, or one of \<open>ts\<close>.\<close>

definition timed_in :: "int list \<Rightarrow> event \<Rightarrow> bool" where
  "timed_in ts ev =
     (case ev of Ev c b \<Rightarrow> (case timeout_of c of None \<Rightarrow> True | Some t \<Rightarrow> t \<in> set ts))"

text \<open>The call of an event.\<close>

definition call_of :: "event \<Rightarrow> call" where
  "call_of ev = (case ev of Ev c b \<Rightarrow> c)"


definition selects_only :: "pystr \<Rightarrow> event \<Rightarrow> bool" where
  "selects_only target ev =
     (case ev of
        Ev (SelectOption l v) b \<Rightarrow> v = target
      | Ev (SelectOptionLabel l v) b \<Rightarrow> v = target
      | _ \<Rightarrow> True)"


section \<open>Concrete environments\<close>

text \<open>
  Environments to run the script on: which calls return is decided by \<open>ok\<close>, what they
  return by one function for each type of result, and \<open>step\<close> is what a call that
  returned did to the world. Boxes hold whole numbers of pixels and the arithmetic on
  them is exact.
\<close>

definition exact_floats :: "rat float_ops" where
  "exact_floats =
     \<lparr>f_of_int = of_int, f_add = (+), f_sub = (-), f_mul = (*), f_div = (/),
      f_lt = (<), f_trunc = (\<lambda>q. if q < 0 then \<lceil>q\<rceil> else \<lfloor>q\<rfloor>)\<rparr>"

definition answer :: "(call \<Rightarrow> 'w \<Rightarrow> bool) \<Rightarrow> (call \<Rightarrow> 'w \<Rightarrow> 'w) \<Rightarrow> (call \<Rightarrow> 'w \<Rightarrow> 'a)
    \<Rightarrow> call \<Rightarrow> 'w \<Rightarrow> (exn + 'a) \<times> 'w" where
  "answer ok step val c w = (if ok c w then (Inr (val c w), step c w) else (Inl PyException, w))"

record 'w script =
  s_ok :: "call \<Rightarrow> 'w \<Rightarrow> bool"
  s_step :: "call \<Rightarrow> 'w \<Rightarrow> 'w"
  s_bool :: "call \<Rightarrow> 'w \<Rightarrow> bool"
  s_str :: "call \<Rightarrow> 'w \<Rightarrow> pystr"
  s_ostr :: "call \<Rightarrow> 'w \<Rightarrow> pystr option"
  s_nat :: "call \<Rightarrow> 'w \<Rightarrow> nat"
  s_box :: "call \<Rightarrow> 'w \<Rightarrow> rat box option"
  s_pic :: "call \<Rightarrow> 'w \<Rightarrow> gray"
  s_ocr :: "gray \<Rightarrow> pystr \<Rightarrow> exn + pystr"
  s_libs :: bool

text \<open>A picture is a grayscale image already; cropping keeps it and rotation keeps it.\<close>

definition scripted_env :: "'w script \<Rightarrow> ('w, rat, gray) env" where
  "scripted_env S =
     \<lparr>do_unit = answer (s_ok S) (s_step S) (\<lambda>c w. ()),
      do_bool = answer (s_ok S) (s_step S) (s_bool S),
      do_str = answer (s_ok S) (s_step S) (s_str S),
      do_ostr = answer (s_ok S) (s_step S) (s_ostr S),
      do_nat = answer (s_ok S) (s_step S) (s_nat S),
      do_box = answer (s_ok S) (s_step S) (s_box S),
      do_pic = answer (s_ok S) (s_step S) (s_pic S),
      image_to_string = s_ocr S,
      pil_convert_L = (\<lambda>p. p),
      pil_crop = (\<lambda>p r. Inr p),
      pil_rotate = (\<lambda>g a. g),
      floats = exact_floats,
      unicode = ascii_tables,
      have_Image = s_libs S,
      have_pytesseract = s_libs S\<rparr>"

text \<open>The page on which nothing is found: every call raises, no library is installed.\<close>

definition dead_script :: "unit script" where
  "dead_script =
     \<lparr>s_ok = (\<lambda>c w. False), s_step = (\<lambda>c w. w), s_bool = (\<lambda>c w. False),
      s_str = (\<lambda>c w. []), s_ostr = (\<lambda>c w. None), s_nat = (\<lambda>c w. 0),
      s_box = (\<lambda>c w. None), s_pic = (\<lambda>c w. []), s_ocr = (\<lambda>g c. Inl PyException),
      s_libs = False\<rparr>"

text \<open>
  A page with no button of the role, where the element with the exact text can be
  clicked: waiting for a button always times out, every other call returns.
\<close>

definition is_wait :: "call \<Rightarrow> bool" where
  "is_wait c = (case c of WaitFor l s t \<Rightarrow> True | _ \<Rightarrow> False)"

definition text_only_script :: "unit script" where
  "text_only_script = dead_script\<lparr>s_ok := (\<lambda>c w. \<not> is_wait c)\<rparr>"

text \<open>
  A page that never changes: it has no \<^verbatim>\<open>select\<close>, every button asked for is visible and
  can be clicked, and its markup is \<open>markup\<close>.
\<close>

definition still_script :: "pystr \<Rightarrow> unit script" where
  "still_script markup = dead_script\<lparr>s_ok := (\<lambda>c w. True), s_str := (\<lambda>c w. markup)\<rparr>"



text \<open>
  An engine that reads \<^verbatim>\<open>A 7\<close> on the white pixel and \<^verbatim>\<open>x_9!z\<close> on the black one, on a
  machine where every call returns and both libraries are installed.
\<close>

definition pixel_ocr :: "gray \<Rightarrow> pystr \<Rightarrow> exn + pystr" where
  "pixel_ocr img config =
     (if img = [[255]] then Inr (asc ''A 7'')
      else if img = [[0]] then Inr (asc ''x_9!z'')
      else Inl PyException)"

definition pixel_script :: "unit script" where
  "pixel_script = dead_script\<lparr>s_ok := (\<lambda>c w. True), s_ocr := pixel_ocr, s_libs := True\<rparr>"

text \<open>
  No library is installed and nothing is found on the page, but the operator types
  \<^verbatim>\<open> 1234 \<close> when asked.
\<close>

definition is_input :: "call \<Rightarrow> bool" where
  "is_input c = (case c of Input p \<Rightarrow> True | _ \<Rightarrow> False)"

definition typing_script :: "unit script" where
  "typing_script = dead_script\<lparr>s_ok := (\<lambda>c w. is_input c), s_str := (\<lambda>c w. asc '' 1234 '')\<rparr>"

text \<open>
  A captcha page: the input is found at once, its box is 120 by 30 at (300, 100), there
  is no \<^verbatim>\<open>img\<close> element, screenshots are one pixel of intensity 100, every call returns.
  The engine reads only punctuation on \<open>blank_script\<close>; on \<open>captcha_script\<close> it is
  \<open>pixel_ocr\<close>.
\<close>

definition input_box :: "rat box" where
  "input_box = \<lparr>box_x = PyInt 300, box_y = PyInt 100, box_width = PyInt 120, box_height = PyInt 30\<rparr>"

definition captcha_script :: "unit script" where
  "captcha_script =
     \<lparr>s_ok = (\<lambda>c w. True), s_step = (\<lambda>c w. w), s_bool = (\<lambda>c w. False),
      s_str = (\<lambda>c w. asc '' 1234 ''), s_ostr = (\<lambda>c w. None), s_nat = (\<lambda>c w. 0),
      s_box = (\<lambda>c w. Some input_box), s_pic = (\<lambda>c w. [[100]]), s_ocr = pixel_ocr,
      s_libs = True\<rparr>"

definition blank_script :: "unit script" where
  "blank_script = captcha_script\<lparr>s_ocr := (\<lambda>g c. Inr (asc ''?!''))\<rparr>"

text \<open>What the recognition attempt calls on the captcha page before it generates candidates.\<close>

definition captcha_input :: locator where
  "captcha_input = First (GetByPlaceholder txt_captcha)"

definition locate_trace :: "event list" where
  "locate_trace =
     [Ev (PageScreenshot (asc ''_before_captcha.png'') True) True,
      Ev (WaitFor captcha_input (asc ''visible'') 800) True,
      Ev (ScrollIntoView captcha_input) True,
      Ev (BoundingBox captcha_input) True,
      Ev (AllOf (Css (asc ''img''))) True,
      Ev (ScrollIntoView verify_image) True,
      Ev (ElemScreenshot verify_image (asc ''_captcha_crop.png'')) True,
      Ev (ImageOpen (asc ''_captcha_crop.png'')) True,
      Ev (BoundingBox captcha_input) True,
      Ev (PageScreenshot (asc ''_captcha_full.png'') True) True,
      Ev (ImageOpen (asc ''_captcha_full.png'')) True]"


text \<open>The same with a form on the page: every call returns.\<close>

definition form_script :: "unit script" where
  "form_script = captcha_script\<lparr>s_libs := False\<rparr>"

text \<open>What \<open>fill_captcha_and_confirm\<close> calls on these two pages, up to the form.\<close>

definition typed_and_confirmed :: "event list" where
  "typed_and_confirmed =
     [Ev (Input prompt_captcha) True,
      Ev (ScrollIntoView captcha_input) True,
      Ev (Fill captcha_input (asc ''1234'') (Some 800)) True,
      Ev (WaitFor role_checkbox (asc ''attached'') 500) True,
      Ev (IsChecked role_checkbox) True,
      Ev (ScrollIntoView role_checkbox) True,
      Ev (Check role_checkbox 800) True,
      Ev (Press captcha_input (asc ''Enter'')) True,
      Ev (WaitForTimeout 400) True,
      Ev (WaitFor (role_button lbl_confirm_quantity) (asc ''visible'') 1000) True,
      Ev (Click (role_button lbl_confirm_quantity) None) True,
      Ev (PageScreenshot (asc ''step10_confirm_not_found'' @ asc ''.png'') True) True,
      Ev Content True,
      Ev (WriteFile (asc ''step10_confirm_not_found'' @ asc ''.html'') (asc '' 1234 '')) True]"


definition form_trace :: "event list" where
  "form_trace =
     typed_and_confirmed @
     [Ev (ScrollIntoView first_form) True,
      Ev (Click submit_button (Some 800)) True]"

text \<open>A page without any element: the lists are empty and nothing else is found.\<close>

definition is_all :: "call \<Rightarrow> bool" where
  "is_all c = (case c of AllOf l \<Rightarrow> True | _ \<Rightarrow> False)"

definition empty_script :: "unit script" where
  "empty_script = dead_script\<lparr>s_ok := (\<lambda>c w. is_all c)\<rparr>"

definition empty_countdown_trace :: "event list" where
  "empty_countdown_trace =
     [Ev (AllOf (Css (asc ''input''))) True,
      Ev (WaitFor (role_button lbl_start_countdown) (asc ''visible'') 1000) False,
      Ev (Click (exact_text lbl_start_countdown) (Some 1000)) False,
      Ev (WaitFor (role_button lbl_buy_now) (asc ''visible'') 1000) False,
      Ev (Click (exact_text lbl_buy_now) (Some 1000)) False,
      Ev (WaitFor (role_button lbl_order_now) (asc ''visible'') 2000) False,
      Ev (Click (exact_text lbl_order_now) (Some 2000)) False]"











section \<open>Properties of the string functions\<close>

lemma str_gt_irrefl: "\<not> str_gt s s"
  by (induction s) auto

lemma str_gt_total: "s \<noteq> t \<Longrightarrow> str_gt s t \<or> str_gt t s"
proof (induction s t rule: str_gt.induct)
  case (1 t)
  then show ?case by (cases t) auto
next
  case (2 x xs)
  then show ?case by simp
next
  case (3 x xs y ys)
  then show ?case by auto
qed

lemma str_gt_asym: "str_gt s t \<Longrightarrow> \<not> str_gt t s"
  by (induction s t rule: str_gt.induct) (auto split: if_splits)

lemma str_gt_trans: "str_gt a b \<Longrightarrow> str_gt b c \<Longrightarrow> str_gt a c"
proof (induction a b arbitrary: c rule: str_gt.induct)
  case (1 t)
  then show ?case by simp
next
  case (2 x xs)
  then show ?case by simp
next
  case (3 x xs y ys)
  then show ?case
    by (cases c) (auto split: if_splits)
qed

text \<open>\<open>str_gt\<close> is the strict lexicographic order of the library, read from the right.\<close>

lemma str_gt_lexord: "str_gt s t \<longleftrightarrow> (t, s) \<in> lexord {(a, b). a < b}"
  by (induction s t rule: str_gt.induct) auto

lemma key_gt_irrefl: "\<not> key_gt a a"
  by (simp add: key_gt_def str_gt_irrefl)

lemma key_gt_trans: "key_gt a b \<Longrightarrow> key_gt b c \<Longrightarrow> key_gt a c"
  unfolding key_gt_def
  by (auto split: if_splits intro: str_gt_trans)

lemma key_gt_total: "a \<noteq> b \<Longrightarrow> key_gt a b \<or> key_gt b a"
  unfolding key_gt_def
  using str_gt_total [of "snd a" "snd b"]
  by (auto simp: prod_eq_iff)


section \<open>The winner is the longest candidate, then the greatest\<close>

lemma max_walk_mem: "max_walk best ss \<in> insert best (set ss)"
  by (induction ss arbitrary: best) auto

lemma max_walk_keeps:
  "\<not> key_gt (cand_key c) (cand_key best) \<Longrightarrow> \<not> key_gt (cand_key c) (cand_key (max_walk best ss))"
proof (induction ss arbitrary: best)
  case Nil
  then show ?case by simp
next
  case (Cons s ss)
  show ?case
  proof (cases "key_gt (cand_key s) (cand_key best)")
    case True
    have "\<not> key_gt (cand_key c) (cand_key s)"
    proof
      assume "key_gt (cand_key c) (cand_key s)"
      then have "key_gt (cand_key c) (cand_key best)"
        using True key_gt_trans by blast
      with Cons.prems show False by simp
    qed
    then show ?thesis using Cons.IH [of s] True by simp
  next
    case False
    then show ?thesis using Cons.IH [of best] Cons.prems by simp
  qed
qed

lemma max_walk_maximal:
  "c \<in> insert best (set ss) \<Longrightarrow> \<not> key_gt (cand_key c) (cand_key (max_walk best ss))"
proof (induction ss arbitrary: best)
  case Nil
  then show ?case by (simp add: key_gt_irrefl)
next
  case (Cons s ss)
  let ?b = "if key_gt (cand_key s) (cand_key best) then s else best"
  consider "c = best" | "c = s" | "c \<in> set ss"
    using Cons.prems by auto
  then show ?case
  proof cases
    case 1
    have "\<not> key_gt (cand_key c) (cand_key ?b)"
      using 1 by (auto simp: key_gt_irrefl dest: key_gt_trans)
    then show ?thesis using max_walk_keeps [of c ?b ss] by simp
  next
    case 2
    have "\<not> key_gt (cand_key c) (cand_key ?b)"
      using 2 by (auto simp: key_gt_irrefl)
    then show ?thesis using max_walk_keeps [of c ?b ss] by simp
  next
    case 3
    then show ?thesis using Cons.IH [of ?b] by simp
  qed
qed

lemma select_winner_mem: "candidates \<noteq> [] \<Longrightarrow> select_winner candidates \<in> set candidates"
  using max_walk_mem by (cases candidates) (auto simp: select_winner_def)

lemma select_winner_maximal:
  "c \<in> set candidates \<Longrightarrow> \<not> key_gt (cand_key c) (cand_key (select_winner candidates))"
  using max_walk_maximal by (cases candidates) (auto simp: select_winner_def)

lemma key_maximal_unique:
  assumes "\<not> key_gt (cand_key a) (cand_key b)" and "\<not> key_gt (cand_key b) (cand_key a)"
  shows "a = b"
proof (rule ccontr)
  assume "a \<noteq> b"
  then have "cand_key a \<noteq> cand_key b" by (simp add: cand_key_def)
  then show False using key_gt_total assms by blast
qed

lemma select_winner_length:
  assumes "c \<in> set candidates"
  shows "length c \<le> length (select_winner candidates)"
  using select_winner_maximal [OF assms]
  by (auto simp: key_gt_def cand_key_def split: if_splits)

lemma select_winner_tie:
  assumes "c \<in> set candidates" and "length c = length (select_winner candidates)"
  shows "c = select_winner candidates \<or> str_gt (select_winner candidates) c"
proof -
  have "\<not> str_gt c (select_winner candidates)"
    using select_winner_maximal [OF assms(1)] assms(2)
    by (simp add: key_gt_def cand_key_def)
  then show ?thesis using str_gt_total by blast
qed

lemma select_winner_set:
  assumes "set candidates' = set candidates"
  shows "select_winner candidates' = select_winner candidates"
proof (cases "candidates = []")
  case True
  then show ?thesis using assms by simp
next
  case False
  then have ne: "candidates' \<noteq> []" using assms by auto
  have a: "select_winner candidates \<in> set candidates'"
    using select_winner_mem [OF False] assms by simp
  have b: "select_winner candidates' \<in> set candidates"
    using select_winner_mem [OF ne] assms by simp
  show ?thesis
    using key_maximal_unique select_winner_maximal [OF a] select_winner_maximal [OF b]
    by blast
qed

lemma select_winner_all_empty:
  assumes "\<forall>c\<in>set candidates. c = []"
  shows "select_winner candidates = []"
proof (cases "candidates = []")
  case True
  then show ?thesis by (simp add: select_winner_def)
next
  case False
  then show ?thesis using select_winner_mem assms by blast
qed

text \<open>
  C1. For every list of candidate strings, empty strings among them or not, the winner
  is one of the candidates, no candidate is longer, and among the candidates as long as
  the winner none is lexicographically greater (\<open>str_gt\<close> is Python's \<open>>\<close> on strings).
  The winner depends only on which strings occur, not on their order or number; on the
  empty list, and on a list of empty strings only, it is the empty string.
\<close>

theorem select_winner_longest_then_greatest:
  "(candidates = [] \<longrightarrow> select_winner candidates = [])
   \<and> ((\<forall>c\<in>set candidates. c = []) \<longrightarrow> select_winner candidates = [])
   \<and> (candidates \<noteq> [] \<longrightarrow> select_winner candidates \<in> set candidates)
   \<and> (\<forall>c\<in>set candidates. length c \<le> length (select_winner candidates))
   \<and> (\<forall>c\<in>set candidates. length c = length (select_winner candidates) \<longrightarrow>
         c = select_winner candidates \<or> str_gt (select_winner candidates) c)
   \<and> (set candidates' = set candidates \<longrightarrow>
         select_winner candidates' = select_winner candidates)"
proof -
  have "candidates = [] \<longrightarrow> select_winner candidates = []"
    by (simp add: select_winner_def)
  moreover have "(\<forall>c\<in>set candidates. c = []) \<longrightarrow> select_winner candidates = []"
    using select_winner_all_empty by blast
  moreover have "candidates \<noteq> [] \<longrightarrow> select_winner candidates \<in> set candidates"
    using select_winner_mem by blast
  moreover have "\<forall>c\<in>set candidates. length c \<le> length (select_winner candidates)"
    using select_winner_length by blast
  moreover have "\<forall>c\<in>set candidates. length c = length (select_winner candidates) \<longrightarrow>
         c = select_winner candidates \<or> str_gt (select_winner candidates) c"
    using select_winner_tie by blast
  moreover have "set candidates' = set candidates \<longrightarrow>
         select_winner candidates' = select_winner candidates"
    using select_winner_set by blast
  ultimately show ?thesis by blast
qed

text \<open>
  The candidates \<open>"ab"\<close>, \<open>""\<close>, \<open>"abd"\<close>, \<open>"abc"\<close>, \<open>"b"\<close>: the two longest have length 3
  and \<open>"abd"\<close> is the greater one.
\<close>

theorem select_winner_longest_then_greatest_witness:
  "select_winner [asc ''ab'', [], asc ''abd'', asc ''abc'', asc ''b''] = asc ''abd''
   \<and> select_winner [asc ''b'', asc ''abc'', asc ''abd'', [], asc ''ab'', asc ''abc''] = asc ''abd''
   \<and> length (asc ''abc'') \<le> length (select_winner [asc ''ab'', [], asc ''abd'', asc ''abc'', asc ''b''])
   \<and> str_gt (select_winner [asc ''ab'', [], asc ''abd'', asc ''abc'', asc ''b'']) (asc ''abc'')
   \<and> select_winner [[], []] = []"
  using select_winner_longest_then_greatest
          [of "[asc ''ab'', [], asc ''abd'', asc ''abc'', asc ''b'']"
              "[asc ''b'', asc ''abc'', asc ''abd'', [], asc ''ab'', asc ''abc'']"]
        select_winner_longest_then_greatest [of "[[], []]" "[]"]
  by (simp add: select_winner_def cand_key_def key_gt_def asc_def)


section \<open>Rules for programs\<close>

lemma bnd_ret [simp]: "bnd (ret x) f = f x"
  by (rule ext) (simp add: bnd_def ret_def split: prod.splits)

lemma run_bnd:
  assumes "bnd m f w = (r, t, w')"
  obtains e where "m w = (Inl e, t, w')" and "r = Inl e"
  | x t1 w1 t2 where "m w = (Inr x, t1, w1)" and "f x w1 = (r, t2, w')" and "t = t1 @ t2"
  using assms unfolding bnd_def
  by (auto split: prod.splits sum.splits)

lemma run_attempt:
  assumes "attempt m h w = (r, t, w')"
  obtains x where "m w = (Inr x, t, w')" and "r = Inr x"
  | e t1 w1 t2 where "m w = (Inl e, t1, w1)" and "h w1 = (r, t2, w')" and "t = t1 @ t2"
  using assms unfolding attempt_def
  by (auto split: prod.splits sum.splits)

lemma run_perform:
  assumes "perform a c w = (r, t, w')"
  shows "a c w = (r, w') \<and> t = [Ev c (\<not> isl r)]"
  using assms unfolding perform_def
  by (auto split: prod.splits)

lemma run_ret:
  assumes "ret x w = (r, t, w')"
  shows "r = Inr x \<and> t = [] \<and> w' = w"
  using assms unfolding ret_def by auto


lemma bnd_Inl: "m w = (Inl e, t, w') \<Longrightarrow> bnd m f w = (Inl e, t, w')"
  by (simp add: bnd_def)

lemma attempt_Inr: "m w = (Inr x, t, w') \<Longrightarrow> attempt m h w = (Inr x, t, w')"
  by (simp add: attempt_def)

lemma attempt_Inl: "m w = (Inl e, t1, w1) \<Longrightarrow> h w1 = (r, t2, w2) \<Longrightarrow> attempt m h w = (r, t1 @ t2, w2)"
  by (simp add: attempt_def)

lemma emitsI: "(\<And>w r t w'. m w = (r, t, w') \<Longrightarrow> list_all P t) \<Longrightarrow> emits P m"
  unfolding emits_def trace_of_def
  by (metis prod.collapse)

lemma emitsD: "emits P m \<Longrightarrow> m w = (r, t, w') \<Longrightarrow> list_all P t"
  unfolding emits_def trace_of_def
  by (metis fst_conv snd_conv)

lemma emits_trace: "emits P m \<Longrightarrow> list_all P (trace_of (m w))"
  by (simp add: emits_def)

lemma emits_ret [intro!, simp]: "emits P (ret x)"
  by (rule emitsI) (simp add: ret_def)

lemma emits_pure_call [intro!, simp]: "emits P (pure_call r)"
  by (rule emitsI) (auto simp: pure_call_def)

lemma both_outcomes: "P (Ev c True) \<Longrightarrow> P (Ev c False) \<Longrightarrow> P (Ev c b)"
  by (cases b) auto

lemma emits_perform: "P (Ev c True) \<Longrightarrow> P (Ev c False) \<Longrightarrow> emits P (perform a c)"
  by (rule emitsI) (auto dest!: run_perform intro: both_outcomes)


lemma emits_bnd [intro!]:
  assumes "emits P m" and "\<And>x. emits P (f x)"
  shows "emits P (bnd m f)"
proof (rule emitsI)
  fix w r t w'
  assume "bnd m f w = (r, t, w')"
  then show "list_all P t"
  proof (cases rule: run_bnd)
    case (1 e)
    then show ?thesis using emitsD [OF assms(1)] by blast
  next
    case (2 x t1 w1 t2)
    have "list_all P t1" using emitsD [OF assms(1) 2(1)] .
    moreover have "list_all P t2" using emitsD [OF assms(2) 2(2)] .
    ultimately show ?thesis using 2(3) by simp
  qed
qed

lemma emits_attempt [intro!]:
  assumes "emits P m" and "emits P h"
  shows "emits P (attempt m h)"
proof (rule emitsI)
  fix w r t w'
  assume "attempt m h w = (r, t, w')"
  then show "list_all P t"
  proof (cases rule: run_attempt)
    case (1 x)
    then show ?thesis using emitsD [OF assms(1)] by blast
  next
    case (2 e t1 w1 t2)
    have "list_all P t1" using emitsD [OF assms(1) 2(1)] .
    moreover have "list_all P t2" using emitsD [OF assms(2) 2(2)] .
    ultimately show ?thesis using 2(3) by simp
  qed
qed

lemma emits_if [intro!]: "(c \<Longrightarrow> emits P a) \<Longrightarrow> (\<not> c \<Longrightarrow> emits P b) \<Longrightarrow> emits P (if c then a else b)"
  by simp

lemma emits_case_option [intro!]:
  "(v = None \<Longrightarrow> emits P a) \<Longrightarrow> (\<And>x. v = Some x \<Longrightarrow> emits P (b x))
     \<Longrightarrow> emits P (case v of None \<Rightarrow> a | Some x \<Rightarrow> b x)"
  by (cases v) auto

lemma emits_all_of: "P (Ev (AllOf loc) True) \<Longrightarrow> P (Ev (AllOf loc) False) \<Longrightarrow> emits P (all_of E loc)"
  unfolding all_of_def by (intro emits_bnd emits_perform emits_ret)

lemma emits_mono: "emits P m \<Longrightarrow> (\<And>ev. P ev \<Longrightarrow> Q ev) \<Longrightarrow> emits Q m"
  unfolding emits_def list_all_iff by blast

lemma never_raisesI: "(\<And>w r t w'. m w = (r, t, w') \<Longrightarrow> \<not> isl r) \<Longrightarrow> never_raises m"
  unfolding never_raises_def result_of_def
  by (metis fst_conv prod.collapse)

lemma never_raisesD: "never_raises m \<Longrightarrow> m w = (r, t, w') \<Longrightarrow> \<exists>x. r = Inr x"
  unfolding never_raises_def result_of_def
  by (metis fst_conv isl_def sum.collapse(2))

lemma never_raises_ret [intro!, simp]: "never_raises (ret x)"
  by (rule never_raisesI) (simp add: ret_def)

lemma never_raises_bnd [intro!]:
  assumes "never_raises m" and "\<And>x. never_raises (f x)"
  shows "never_raises (bnd m f)"
proof (rule never_raisesI)
  fix w r t w'
  assume "bnd m f w = (r, t, w')"
  then show "\<not> isl r"
  proof (cases rule: run_bnd)
    case (1 e)
    then show ?thesis using never_raisesD [OF assms(1)] by blast
  next
    case (2 x t1 w1 t2)
    then show ?thesis using never_raisesD [OF assms(2) 2(2)] by auto
  qed
qed

lemma never_raises_attempt [intro!]:
  assumes "never_raises h"
  shows "never_raises (attempt m h)"
proof (rule never_raisesI)
  fix w r t w'
  assume "attempt m h w = (r, t, w')"
  then show "\<not> isl r"
  proof (cases rule: run_attempt)
    case (1 x)
    then show ?thesis by simp
  next
    case (2 e t1 w1 t2)
    then show ?thesis using never_raisesD [OF assms 2(2)] by auto
  qed
qed

lemma never_raises_if [intro!]: "(c \<Longrightarrow> never_raises a) \<Longrightarrow> (\<not> c \<Longrightarrow> never_raises b) \<Longrightarrow> never_raises (if c then a else b)"
  by simp

lemma never_raises_case_option [intro!]:
  "(v = None \<Longrightarrow> never_raises a) \<Longrightarrow> (\<And>x. v = Some x \<Longrightarrow> never_raises (b x))
     \<Longrightarrow> never_raises (case v of None \<Rightarrow> a | Some x \<Rightarrow> b x)"
  by (cases v) auto


section \<open>The click step never raises\<close>

lemma never_raises_click_if_visible: "never_raises (click_if_visible E text timeout_ms)"
  unfolding click_if_visible_def by (intro never_raises_attempt never_raises_ret)

lemma emits_click_if_visible:
  assumes "\<And>b. P (Ev (WaitFor (role_button text) (asc ''visible'') timeout_ms) b)"
    and "\<And>b. P (Ev (Click (role_button text) None) b)"
    and "\<And>b. P (Ev (Click (exact_text text) (Some timeout_ms)) b)"
  shows "emits P (click_if_visible E text timeout_ms)"
  unfolding click_if_visible_def
  by (intro emits_attempt emits_bnd emits_perform emits_ret assms)





section \<open>Unfolding a run on a concrete environment\<close>

lemmas run_defs = bnd_def attempt_def perform_def ret_def all_of_def pure_call_def recognize_def

lemmas script_defs = scripted_env_def answer_def dead_script_def still_script_def
  text_only_script_def is_wait_def pixel_script_def pixel_ocr_def typing_script_def is_input_def
  captcha_script_def blank_script_def input_box_def


lemma scripted_env_fields:
  "do_unit (scripted_env S) = answer (s_ok S) (s_step S) (\<lambda>c w. ())"
  "do_bool (scripted_env S) = answer (s_ok S) (s_step S) (s_bool S)"
  "do_str (scripted_env S) = answer (s_ok S) (s_step S) (s_str S)"
  "do_ostr (scripted_env S) = answer (s_ok S) (s_step S) (s_ostr S)"
  "do_nat (scripted_env S) = answer (s_ok S) (s_step S) (s_nat S)"
  "do_box (scripted_env S) = answer (s_ok S) (s_step S) (s_box S)"
  "do_pic (scripted_env S) = answer (s_ok S) (s_step S) (s_pic S)"
  "image_to_string (scripted_env S) = s_ocr S"
  "pil_convert_L (scripted_env S) = (\<lambda>p. p)"
  "pil_crop (scripted_env S) = (\<lambda>p r. Inr p)"
  "pil_rotate (scripted_env S) = (\<lambda>g a. g)"
  "floats (scripted_env S) = exact_floats"
  "unicode (scripted_env S) = ascii_tables"
  "have_Image (scripted_env S) = s_libs S"
  "have_pytesseract (scripted_env S) = s_libs S"
  by (simp_all add: scripted_env_def)

lemma dead_fields:
  "s_ok dead_script = (\<lambda>c w. False)" "s_step dead_script = (\<lambda>c w. w)"
  "s_libs dead_script = False"
  by (simp_all add: dead_script_def)

lemma typing_fields:
  "s_ok typing_script = (\<lambda>c w. is_input c)" "s_step typing_script = (\<lambda>c w. w)"
  "s_str typing_script = (\<lambda>c w. asc '' 1234 '')" "s_libs typing_script = False"
  by (simp_all add: typing_script_def dead_script_def)

lemma captcha_fields:
  "s_ok captcha_script = (\<lambda>c w. True)" "s_step captcha_script = (\<lambda>c w. w)"
  "s_bool captcha_script = (\<lambda>c w. False)" "s_str captcha_script = (\<lambda>c w. asc '' 1234 '')"
  "s_ostr captcha_script = (\<lambda>c w. None)" "s_nat captcha_script = (\<lambda>c w. 0)"
  "s_box captcha_script = (\<lambda>c w. Some input_box)" "s_pic captcha_script = (\<lambda>c w. [[100]])"
  "s_ocr captcha_script = pixel_ocr" "s_libs captcha_script = True"
  by (simp_all add: captcha_script_def)

lemma blank_fields:
  "s_ok blank_script = (\<lambda>c w. True)" "s_step blank_script = (\<lambda>c w. w)"
  "s_bool blank_script = (\<lambda>c w. False)" "s_str blank_script = (\<lambda>c w. asc '' 1234 '')"
  "s_ostr blank_script = (\<lambda>c w. None)" "s_nat blank_script = (\<lambda>c w. 0)"
  "s_box blank_script = (\<lambda>c w. Some input_box)" "s_pic blank_script = (\<lambda>c w. [[100]])"
  "s_ocr blank_script = (\<lambda>g c. Inr (asc ''?!''))" "s_libs blank_script = True"
  by (simp_all add: blank_script_def captcha_script_def)

lemmas eval_defs = bnd_def attempt_def perform_def ret_def all_of_def pure_call_def
  recognize_def answer_def scripted_env_fields


section \<open>The advance loop stops within 20 iterations\<close>

lemma quiet_simps [simp]:
  "quiet (Ev (WaitFor l s t) b)" "quiet (Ev (Click l t') b)" "quiet (Ev (IsDisabled l) b)"
  "quiet (Ev (GetAttribute l s) b)" "quiet (Ev (SelectOption l s) b)" "quiet (Ev (WaitForTimeout t) b)"
  "quiet (Ev (InnerText l) b)" "quiet (Ev Content b)" "quiet (Ev (AllOf (Sub l s)) b)"
  "quiet (Ev (AllOf (Css (asc ''button''))) b)"
  by (simp_all add: quiet_def starts_iteration_def asc_def)









lemma iterations_append [simp]: "iterations (s @ t) = iterations s + iterations t"
  by (simp add: iterations_def)


lemma iterations_start [simp]: "iterations (Ev (AllOf (Css (asc ''select''))) b # t) = Suc (iterations t)"
  by (simp add: iterations_def starts_iteration_def)

lemma iterations_Nil [simp]: "iterations [] = 0"
  by (simp add: iterations_def)







lemma nav_loop_raises:
  assumes "nav_iteration E w = (Inl e, t, w')"
  shows "nav_loop E (Suc n) w = (Inl e, t, w')"
  using assms by (simp add: bnd_def)



text \<open>No click returned: the first half of the iteration gives \<open>progressed = False\<close>.\<close>

lemma no_click_append [simp]:
  "list_ex click_returned (s @ t) \<longleftrightarrow> list_ex click_returned s \<or> list_ex click_returned t"
  by (auto simp: list_ex_iff)






lemma no_click_simps [simp]:
  "no_click (Ev (WaitFor l s t) b)" "no_click (Ev (IsDisabled l) b)"
  "no_click (Ev (GetAttribute l s) b)" "no_click (Ev (SelectOption l s) b)"
  "no_click (Ev (WaitForTimeout t) b)" "no_click (Ev (InnerText l) b)" "no_click (Ev Content b)"
  "no_click (Ev (AllOf l) b)"
  by (simp_all add: no_click_def click_returned_def)






lemma no_click_exit_check: "emits no_click (exit_check E p)"
  unfolding exit_check_def success_found_def by (auto intro!: emits_perform)













section \<open>One candidate for each angle and threshold\<close>

lemma transformed_eq: "transformed E base (a, th) = binarize th (invert (pil_rotate E base a))"
  by (simp add: transformed_def binarize_def invert_def black_or_white_def not_less)

lemma list_ex_failed_append [simp]: "list_ex failed (s @ t) \<longleftrightarrow> list_ex failed s \<or> list_ex failed t"
  by (auto simp: list_ex_iff)

text \<open>One pass of the inner loop body: save, recognize, strip.\<close>

lemma threshold_loop_run:
  assumes "threshold_loop E inverted ths cands w = (r, t, w')"
  shows "(\<exists>new. r = Inr (cands @ new)
            \<and> list_all2 (\<lambda>th c. candidate_of E (binarize th inverted) c) ths new
            \<and> t = concat (map (\<lambda>th. recognition_calls (binarize th inverted)) ths))
       \<or> (isl r \<and> list_ex failed t)"
  using assms
proof (induction ths arbitrary: cands w r t w')
  case Nil
  then show ?case by (auto simp: ret_def)
next
  case (Cons th rest)
  let ?img = "binarize th inverted"
  from Cons.prems have run: "bnd (perform (do_unit E) (ImageSave ?img (asc ''_captcha_crop.png''))) (\<lambda>_.
     bnd (recognize E ?img psm7) (\<lambda>raw.
     threshold_loop E inverted rest (cands @ [filter (py_isalnum (unicode E)) raw]))) w = (r, t, w')"
    by simp
  then show ?case
  proof (cases rule: run_bnd)
    case (1 e)
    then show ?thesis
      by (auto dest!: run_perform simp: failed_def)
  next
    case (2 u t1 w1 t2)
    have t1: "t1 = [Ev (ImageSave ?img (asc ''_captcha_crop.png'')) True]"
      using run_perform [OF 2(1)] by simp
    from 2(2) show ?thesis
    proof (cases rule: run_bnd)
      case (1 e)
      then show ?thesis using 2(3)
        by (auto simp: recognize_def failed_def)
    next
      case (2 raw t3 w3 t4)
      have t3: "t3 = [Ev (ImageToString ?img psm7) True]" and raw: "image_to_string E ?img psm7 = Inr raw"
        using 2(1) by (auto simp: recognize_def)
      have cand: "candidate_of E ?img (filter (py_isalnum (unicode E)) raw)"
        by (simp add: candidate_of_def raw)
      from Cons.IH [OF 2(2)] show ?thesis
      proof
        assume "\<exists>new. r = Inr ((cands @ [filter (py_isalnum (unicode E)) raw]) @ new)
            \<and> list_all2 (\<lambda>th c. candidate_of E (binarize th inverted) c) rest new
            \<and> t4 = concat (map (\<lambda>th. recognition_calls (binarize th inverted)) rest)"
        then obtain new where new: "r = Inr ((cands @ [filter (py_isalnum (unicode E)) raw]) @ new)"
          "list_all2 (\<lambda>th c. candidate_of E (binarize th inverted) c) rest new"
          "t4 = concat (map (\<lambda>th. recognition_calls (binarize th inverted)) rest)"
          by blast
        have "r = Inr (cands @ (filter (py_isalnum (unicode E)) raw # new))"
          using new(1) by simp
        moreover have "list_all2 (\<lambda>th c. candidate_of E (binarize th inverted) c) (th # rest)
            (filter (py_isalnum (unicode E)) raw # new)"
          using cand new(2) by simp
        moreover have "t = concat (map (\<lambda>th. recognition_calls (binarize th inverted)) (th # rest))"
          using \<open>t = t1 @ t2\<close> \<open>t2 = t3 @ t4\<close> t1 t3 new(3) by (simp add: recognition_calls_def)
        ultimately show ?thesis by blast
      next
        assume "isl r \<and> list_ex failed t4"
        then show ?thesis using \<open>t = t1 @ t2\<close> \<open>t2 = t3 @ t4\<close> by simp
      qed
    qed
  qed
qed

lemma angle_loop_run:
  assumes "angle_loop E base as cands w = (r, t, w')"
  shows "(\<exists>new. r = Inr (cands @ new)
            \<and> list_all2 (\<lambda>pair c. candidate_of E (transformed E base pair) c)
                 (List.product as thresholds) new
            \<and> t = concat (map (\<lambda>pair. recognition_calls (transformed E base pair))
                     (List.product as thresholds)))
       \<or> (isl r \<and> list_ex failed t)"
  using assms
proof (induction as arbitrary: cands w r t w')
  case Nil
  then show ?case by (auto simp: ret_def)
next
  case (Cons a rest)
  let ?inv = "invert (pil_rotate E base a)"
  from Cons.prems have "bnd (threshold_loop E ?inv thresholds cands) (angle_loop E base rest) w = (r, t, w')"
    by simp
  then show ?case
  proof (cases rule: run_bnd)
    case (1 e)
    then show ?thesis using threshold_loop_run [OF 1(1)] by auto
  next
    case (2 cs t1 w1 t2)
    from threshold_loop_run [OF 2(1)] obtain new1 where new1: "cs = cands @ new1"
      "list_all2 (\<lambda>th c. candidate_of E (binarize th ?inv) c) thresholds new1"
      "t1 = concat (map (\<lambda>th. recognition_calls (binarize th ?inv)) thresholds)"
      by auto
    have first: "list_all2 (\<lambda>pair c. candidate_of E (transformed E base pair) c)
        (map (Pair a) thresholds) new1"
      using new1(2) by (simp add: list_all2_map1 transformed_eq)
    have t1': "t1 = concat (map (\<lambda>pair. recognition_calls (transformed E base pair))
        (map (Pair a) thresholds))"
      using new1(3) by (simp add: transformed_eq comp_def)
    from Cons.IH [OF 2(2)] show ?thesis
    proof
      assume "\<exists>new. r = Inr (cs @ new)
            \<and> list_all2 (\<lambda>pair c. candidate_of E (transformed E base pair) c)
                 (List.product rest thresholds) new
            \<and> t2 = concat (map (\<lambda>pair. recognition_calls (transformed E base pair))
                     (List.product rest thresholds))"
      then obtain new2 where new2: "r = Inr (cs @ new2)"
        "list_all2 (\<lambda>pair c. candidate_of E (transformed E base pair) c)
           (List.product rest thresholds) new2"
        "t2 = concat (map (\<lambda>pair. recognition_calls (transformed E base pair))
                     (List.product rest thresholds))"
        by blast
      have "r = Inr (cands @ (new1 @ new2))" using new2(1) new1(1) by simp
      moreover have "list_all2 (\<lambda>pair c. candidate_of E (transformed E base pair) c)
          (List.product (a # rest) thresholds) (new1 @ new2)"
        using first new2(2) by (simp add: list_all2_appendI)
      moreover have "t = concat (map (\<lambda>pair. recognition_calls (transformed E base pair))
          (List.product (a # rest) thresholds))"
        using \<open>t = t1 @ t2\<close> t1' new2(3) by simp
      ultimately show ?thesis by blast
    next
      assume "isl r \<and> list_ex failed t2"
      then show ?thesis using \<open>t = t1 @ t2\<close> by simp
    qed
  qed
qed

lemma grid_pairs:
  "grid = [(- 6, 115), (- 6, 160), (- 4, 115), (- 4, 160), (- 2, 115), (- 2, 160), (0, 115),
           (0, 160), (2, 115), (2, 160), (4, 115), (4, 160), (6, 115), (6, 160)]"
  by (simp add: grid_def angles_def thresholds_def)

lemma not_failed_recognition_calls: "\<not> list_ex failed (concat (map (\<lambda>pair. recognition_calls (f pair)) ps))"
  by (induction ps) (auto simp: recognition_calls_def failed_def)

text \<open>
  C4. For every base image, every engine and every machine: the grid has the 14 pairs of
  an angle in -6, -4, -2, 0, 2, 4, 6 and a threshold in 115, 160. When candidate
  generation returns, its candidates are, pair by pair in the order of the grid, what
  the engine read on the image of the pair with the non-alphanumeric characters
  removed, and its calls were, for each pair in turn, saving that image and one
  recognition of it in single line mode. It fails to return only when one of these calls
  raised. The image of a pair is the rotated base image, inverted, then black at most
  the threshold and white above it.
\<close>

theorem gen_candidates_grid:
  "length grid = 14
   \<and> set grid = {- 6, - 4, - 2, 0, 2, 4, 6} \<times> {115, 160}
   \<and> (gen_candidates E base w = (Inr candidates, t, w') \<longrightarrow>
        list_all2 (\<lambda>pair c. candidate_of E (transformed E base pair) c) grid candidates
        \<and> length candidates = 14
        \<and> t = concat (map (\<lambda>pair. recognition_calls (transformed E base pair)) grid))
   \<and> (gen_candidates E base w = (Inl e, t, w') \<longrightarrow> list_ex failed t)
   \<and> transformed E base (angle, th)
        = map (map (\<lambda>p. if p \<le> th then 0 else 255))
            (map (map (\<lambda>p. 255 - p)) (pil_rotate E base angle))"
proof -
  have len: "length grid = 14" by (simp add: grid_pairs)
  have pairs: "set grid = {- 6, - 4, - 2, 0, 2, 4, 6} \<times> {115, 160}"
    by (simp add: grid_def angles_def thresholds_def)
  have ok: "list_all2 (\<lambda>pair c. candidate_of E (transformed E base pair) c) grid candidates
        \<and> length candidates = 14
        \<and> t = concat (map (\<lambda>pair. recognition_calls (transformed E base pair)) grid)"
    if run: "gen_candidates E base w = (Inr candidates, t, w')"
  proof -
    from run have "angle_loop E base angles [] w = (Inr candidates, t, w')"
      by (simp add: gen_candidates_def)
    from angle_loop_run [OF this]
    have a: "list_all2 (\<lambda>pair c. candidate_of E (transformed E base pair) c) grid candidates"
      and b: "t = concat (map (\<lambda>pair. recognition_calls (transformed E base pair)) grid)"
      by (auto simp: grid_def)
    from a have "length candidates = length grid" by (simp add: list_all2_lengthD)
    then show ?thesis using a b len by simp
  qed
  have bad: "list_ex failed t" if run: "gen_candidates E base w = (Inl e, t, w')"
  proof -
    from run have "angle_loop E base angles [] w = (Inl e, t, w')"
      by (simp add: gen_candidates_def)
    from angle_loop_run [OF this] show ?thesis by auto
  qed
  have img: "transformed E base (angle, th)
        = map (map (\<lambda>p. if p \<le> th then 0 else 255))
            (map (map (\<lambda>p. 255 - p)) (pil_rotate E base angle))"
    by (simp add: transformed_def black_or_white_def)
  show ?thesis using len pairs ok bad img by blast
qed

lemma pixel_threshold:
  "threshold_loop (scripted_env pixel_script) [[155]] thresholds cands ()
     = (Inr (cands @ [asc ''A7'', asc ''x9z'']),
        recognition_calls [[255]] @ recognition_calls [[0]], ())"
  by (simp add: thresholds_def run_defs script_defs binarize_def
      py_isalnum_def ascii_digit_def ascii_alpha_def ascii_tables_def asc_def
      recognition_calls_def)

lemma pixel_angle:
  "angle_loop (scripted_env pixel_script) [[100]] as cands ()
     = (Inr (cands @ concat (replicate (length as) [asc ''A7'', asc ''x9z''])),
        concat (replicate (length as) (recognition_calls [[255]] @ recognition_calls [[0]])), ())"
proof (induction as arbitrary: cands)
  case Nil
  then show ?case by (simp add: ret_def)
next
  case (Cons a as)
  have "invert (pil_rotate (scripted_env pixel_script) [[100]] a) = [[155]]"
    by (simp add: invert_def scripted_env_def)
  then show ?case
    using Cons.IH by (simp add: pixel_threshold bnd_def)
qed

text \<open>
  The base image of one pixel of intensity 100: inverted it is 155, white at threshold
  115 and black at threshold 160, so the candidates are \<^verbatim>\<open>A7\<close> and \<^verbatim>\<open>x9z\<close>, seven times.
\<close>

theorem gen_candidates_grid_witness:
  "gen_candidates (scripted_env pixel_script) [[100]] ()
     = (Inr (concat (replicate 7 [asc ''A7'', asc ''x9z''])),
        concat (replicate 7 (recognition_calls [[255]] @ recognition_calls [[0]])), ())
   \<and> list_all2 (\<lambda>pair c. candidate_of (scripted_env pixel_script)
                   (transformed (scripted_env pixel_script) [[100]] pair) c)
        grid (concat (replicate 7 [asc ''A7'', asc ''x9z'']))
   \<and> length (concat (replicate 7 [asc ''A7'', asc ''x9z''])) = 14
   \<and> concat (replicate 7 (recognition_calls [[255]] @ recognition_calls [[0]]))
       = concat (map (\<lambda>pair. recognition_calls
                         (transformed (scripted_env pixel_script) [[100]] pair)) grid)
   \<and> transformed (scripted_env pixel_script) [[100]] (- 6, 115) = [[255]]
   \<and> transformed (scripted_env pixel_script) [[100]] (- 6, 160) = [[0]]"
proof -
  have run: "gen_candidates (scripted_env pixel_script) [[100]] ()
     = (Inr (concat (replicate 7 [asc ''A7'', asc ''x9z''])),
        concat (replicate 7 (recognition_calls [[255]] @ recognition_calls [[0]])), ())"
  proof -
    have "length angles = 7" by (simp add: angles_def)
    then show ?thesis
      using pixel_angle [of angles "[]"] by (simp add: gen_candidates_def)
  qed
  have img: "transformed (scripted_env pixel_script) [[100]] (- 6, 115) = [[255]]"
    "transformed (scripted_env pixel_script) [[100]] (- 6, 160) = [[0]]"
    by (simp_all add: transformed_def black_or_white_def script_defs)
  show ?thesis
    using gen_candidates_grid [of "scripted_env pixel_script" "[[100]]" "()"
            "concat (replicate 7 [asc ''A7'', asc ''x9z''])"
            "concat (replicate 7 (recognition_calls [[255]] @ recognition_calls [[0]]))" "()"]
      run img
    by blast
qed


section \<open>Without an engine, or without a reading, the operator is asked\<close>

lemma trace_bnd_prefix: "\<exists>rest. trace_of (bnd m f w) = trace_of (m w) @ rest"
  by (auto simp: bnd_def trace_of_def split: prod.splits sum.splits)

lemma never_raises_ocr_captcha: "never_raises (ocr_captcha E)"
  unfolding ocr_captcha_def by (intro never_raises_if never_raises_attempt never_raises_ret)

lemma obtain_code_empty:
  assumes "ocr_captcha E w = (Inr [], t, w1)"
  shows "\<exists>b. trace_of (obtain_code E w) = t @ [Ev (Input prompt_captcha) b]"
  using assms
  by (auto simp: obtain_code_def bnd_def perform_def ret_def trace_of_def
      split: prod.splits sum.splits)

lemma obtain_code_read:
  assumes "ocr_captcha E w = (Inr code, t, w1)" and "code \<noteq> []"
  shows "obtain_code E w = (Inr code, t, w1)"
  using assms by (simp add: obtain_code_def bnd_def ret_def)

lemma fill_captcha_and_confirm_asks:
  assumes "ocr_captcha E w = (Inr [], t, w1)"
  shows "\<exists>b rest. trace_of (fill_captcha_and_confirm E timeout_ms w)
            = t @ Ev (Input prompt_captcha) b # rest"
proof -
  obtain b where "trace_of (obtain_code E w) = t @ [Ev (Input prompt_captcha) b]"
    using obtain_code_empty [OF assms] by blast
  moreover have "\<exists>rest. trace_of (fill_captcha_and_confirm E timeout_ms w)
      = trace_of (obtain_code E w) @ rest"
    unfolding fill_captcha_and_confirm_def by (rule trace_bnd_prefix)
  ultimately show ?thesis by auto
qed

text \<open>
  C9. When pytesseract or Pillow is missing, the recognition attempt returns the empty
  string at once, without a single call (no screenshot, no image opened, saved or
  read), and the first thing \<open>fill_captcha_and_confirm\<close> does is ask the operator.
  The recognition attempt never raises. Whenever it returns the empty string, the
  operator is asked right after the calls it made; and with both libraries present it
  returns the empty string whenever its body does, which is the case when the winning
  candidate is empty.
\<close>

theorem no_engine_asks_operator:
  "(\<not> (have_pytesseract E \<and> have_Image E) \<longrightarrow>
      ocr_captcha E w = (Inr [], [], w)
      \<and> (\<exists>b rest. trace_of (fill_captcha_and_confirm E timeout_ms w)
            = Ev (Input prompt_captcha) b # rest))
   \<and> (\<exists>code t0 w0. ocr_captcha E w = (Inr code, t0, w0))
   \<and> (ocr_captcha E w = (Inr [], t, w1) \<longrightarrow>
        (\<exists>b rest. trace_of (fill_captcha_and_confirm E timeout_ms w)
            = t @ Ev (Input prompt_captcha) b # rest))
   \<and> (have_pytesseract E \<and> have_Image E \<longrightarrow> ocr_block E w = (Inr [], t, w1) \<longrightarrow>
        ocr_captcha E w = (Inr [], t, w1))"
proof -
  have none: "ocr_captcha E w = (Inr [], [], w)" if "\<not> (have_pytesseract E \<and> have_Image E)"
    using that by (auto simp: ocr_captcha_def ret_def)
  have first: "\<exists>b rest. trace_of (fill_captcha_and_confirm E timeout_ms w)
            = Ev (Input prompt_captcha) b # rest"
    if "\<not> (have_pytesseract E \<and> have_Image E)"
    using fill_captcha_and_confirm_asks [OF none [OF that]] by simp
  have total: "\<exists>code t0 w0. ocr_captcha E w = (Inr code, t0, w0)"
    using never_raisesD [OF never_raises_ocr_captcha, of E w] by (metis prod.collapse)
  have block: "ocr_captcha E w = (Inr [], t, w1)"
    if "have_pytesseract E \<and> have_Image E" and "ocr_block E w = (Inr [], t, w1)"
    using that by (simp add: ocr_captcha_def attempt_def)
  have asks: "ocr_captcha E w = (Inr [], t, w1) \<longrightarrow>
        (\<exists>b rest. trace_of (fill_captcha_and_confirm E timeout_ms w)
            = t @ Ev (Input prompt_captcha) b # rest)"
    by (rule impI) (erule fill_captcha_and_confirm_asks)
  show ?thesis
    using none first total asks block by blast
qed

lemma blank_threshold:
  "threshold_loop (scripted_env blank_script) [[155]] thresholds cands ()
     = (Inr (cands @ [[], []]),
        recognition_calls [[255]] @ recognition_calls [[0]], ())"
  by (simp add: thresholds_def run_defs script_defs binarize_def
      py_isalnum_def ascii_digit_def ascii_alpha_def ascii_tables_def asc_def
      recognition_calls_def)

lemma blank_angle:
  "angle_loop (scripted_env blank_script) [[100]] as cands ()
     = (Inr (cands @ concat (replicate (length as) [[], []])),
        concat (replicate (length as) (recognition_calls [[255]] @ recognition_calls [[0]])), ())"
proof (induction as arbitrary: cands)
  case Nil
  then show ?case by (simp add: ret_def)
next
  case (Cons a as)
  have "invert (pil_rotate (scripted_env blank_script) [[100]] a) = [[155]]"
    by (simp add: invert_def scripted_env_def)
  then show ?case
    using Cons.IH by (simp add: blank_threshold bnd_def)
qed

lemma blank_candidates:
  "gen_candidates (scripted_env blank_script) [[100]] ()
     = (Inr (concat (replicate 7 [[], []])),
        concat (replicate 7 (recognition_calls [[255]] @ recognition_calls [[0]])), ())"
proof -
  have "length angles = 7" by (simp add: angles_def)
  then show ?thesis
    using blank_angle [of angles "[]"] by (simp add: gen_candidates_def)
qed

lemma winner_of_blanks: "select_winner (concat (replicate n [[], []])) = []"
  by (rule select_winner_all_empty) auto

lemma blank_block:
  "ocr_block (scripted_env blank_script) ()
     = (Inr [], locate_trace @ concat (replicate 7 (recognition_calls [[255]] @ recognition_calls [[0]])), ())"
  by (simp add: ocr_block_def input_candidates_def locate_captcha_image_def
      capture_element_def fallback_region_def eval_defs blank_fields locate_trace_def
      captcha_input_def blank_candidates winner_of_blanks)

lemma strip_typed: "py_strip ascii_tables (asc '' 1234 '') = asc ''1234''"
  by (simp add: py_strip_def py_isspace_def ascii_space_def asc_def)

text \<open>
  Without the libraries the operator is asked first, and \<^verbatim>\<open> 1234 \<close> typed gives the code
  \<^verbatim>\<open>1234\<close>. With the libraries and an engine that reads only punctuation, all 14
  candidates are empty, so is the winner, and the operator is asked after the last
  recognition.
\<close>

theorem no_engine_asks_operator_witness:
  "ocr_captcha (scripted_env typing_script) () = (Inr [], [], ())
   \<and> obtain_code (scripted_env typing_script) ()
       = (Inr (asc ''1234''), [Ev (Input prompt_captcha) True], ())
   \<and> (\<exists>b rest. trace_of (fill_captcha_and_confirm (scripted_env typing_script) 15000 ())
            = Ev (Input prompt_captcha) b # rest)
   \<and> ocr_block (scripted_env blank_script) ()
       = (Inr [], locate_trace
            @ concat (replicate 7 (recognition_calls [[255]] @ recognition_calls [[0]])), ())
   \<and> ocr_captcha (scripted_env blank_script) ()
       = (Inr [], locate_trace
            @ concat (replicate 7 (recognition_calls [[255]] @ recognition_calls [[0]])), ())
   \<and> (\<exists>b rest. trace_of (fill_captcha_and_confirm (scripted_env blank_script) 15000 ())
            = (locate_trace
                 @ concat (replicate 7 (recognition_calls [[255]] @ recognition_calls [[0]])))
              @ Ev (Input prompt_captcha) b # rest)"
proof -
  have libs: "\<not> (have_pytesseract (scripted_env typing_script) \<and> have_Image (scripted_env typing_script))"
    "have_pytesseract (scripted_env blank_script) \<and> have_Image (scripted_env blank_script)"
    by (simp_all add: scripted_env_fields typing_fields blank_fields)
  have a: "ocr_captcha (scripted_env typing_script) () = (Inr [], [], ())"
    and b: "\<exists>b rest. trace_of (fill_captcha_and_confirm (scripted_env typing_script) 15000 ())
            = Ev (Input prompt_captcha) b # rest"
    using no_engine_asks_operator [of "scripted_env typing_script" "()" 15000] libs(1) by blast+
  have c: "obtain_code (scripted_env typing_script) ()
       = (Inr (asc ''1234''), [Ev (Input prompt_captcha) True], ())"
    using a by (simp add: obtain_code_def eval_defs typing_fields is_input_def strip_typed)
  have d: "ocr_captcha (scripted_env blank_script) ()
       = (Inr [], locate_trace
            @ concat (replicate 7 (recognition_calls [[255]] @ recognition_calls [[0]])), ())"
    using no_engine_asks_operator [of "scripted_env blank_script" "()" 15000
        "locate_trace @ concat (replicate 7 (recognition_calls [[255]] @ recognition_calls [[0]]))" "()"]
      libs(2) blank_block by blast
  have e: "\<exists>b rest. trace_of (fill_captcha_and_confirm (scripted_env blank_script) 15000 ())
            = (locate_trace
                 @ concat (replicate 7 (recognition_calls [[255]] @ recognition_calls [[0]])))
              @ Ev (Input prompt_captcha) b # rest"
    using no_engine_asks_operator [of "scripted_env blank_script" "()" 15000
        "locate_trace @ concat (replicate 7 (recognition_calls [[255]] @ recognition_calls [[0]]))" "()"]
      d by blast
  show ?thesis using a b c d e blank_block by blast
qed


section \<open>One fill, and the clicks of the confirmation tiers\<close>

lemma watching_simps [simp]:
  "watching (Ev (WaitFor l s t) b)" "watching (Ev (Check l t) b)"
  "watching (Ev (ScrollIntoView l) b)" "watching (Ev (SelectOption l s) b)"
  "watching (Ev (SelectOptionLabel l s) b)" "watching (Ev (IsChecked l) b)"
  "watching (Ev (IsDisabled l) b)" "watching (Ev (GetAttribute l s) b)"
  "watching (Ev (InnerText l) b)" "watching (Ev (BoundingBox l) b)" "watching (Ev (Count l) b)"
  "watching (Ev (AllOf l) b)" "watching (Ev (ElemScreenshot l s) b)"
  "watching (Ev (PageScreenshot s fp) b)" "watching (Ev Content b)"
  "watching (Ev (Evaluate s f) b)" "watching (Ev (WaitForTimeout t) b)"
  "watching (Ev (Sleep_ms t) b)" "watching (Ev (WriteFile s s') b)" "watching (Ev (Input s) b)"
  "watching (Ev (ImageOpen s) b)" "watching (Ev (ImageSave g s) b)"
  "watching (Ev (ImageToString g s) b)"
  "\<not> watching (Ev (Fill l s ot) b)" "\<not> watching (Ev (Press l s) b)" "\<not> watching (Ev (Click l ot) b)"
  by (simp_all add: watching_def observes_def)














lemma watching_not:
  assumes "watching ev"
  shows "\<not> fill_attempt ev" "\<not> fill_returned ev" "\<not> enter_returned ev" "\<not> tier_click ev"
    "fills_value code ev"
  using assms
  by (cases ev; cases "case ev of Ev c b \<Rightarrow> c";
      simp add: watching_def observes_def fill_attempt_def fill_returned_def enter_returned_def
        tier_click_def fills_value_def)+








text \<open>
  The fill loop: it gives a locator exactly when its last call is a fill that returned,
  and no fill returned before.
\<close>

lemma fill_event_simps [simp]:
  "fills_value code (Ev (Fill l v tm) b) \<longleftrightarrow> v = code" "fill_calm (Ev (Fill l v tm) b)"
  "fill_returned (Ev (Fill l v tm) b) \<longleftrightarrow> b" "fill_attempt (Ev (Fill l v tm) b)"
  "fills_value code (Ev (ScrollIntoView l) b)" "fill_calm (Ev (ScrollIntoView l) b)"
  "\<not> fill_returned (Ev (ScrollIntoView l) b)" "\<not> fill_attempt (Ev (ScrollIntoView l) b)"
  by (simp_all add: fills_value_def fill_calm_def fill_returned_def fill_attempt_def
      enter_returned_def tier_click_def)



lemma not_submit_button [simp]:
  "role_button l \<noteq> submit_button" "exact_text l \<noteq> submit_button"
  "confirm_text \<noteq> submit_button" "keyword_button \<noteq> submit_button"
  by (simp_all add: role_button_def exact_text_def confirm_text_def keyword_button_def
      submit_button_def)

lemma confirm_event_simps [simp]:
  "tier_click (Ev (Click l ot) b) \<longleftrightarrow> b \<and> l \<noteq> submit_button"
  "\<not> enter_returned (Ev (Click l ot) b)" "\<not> fill_attempt (Ev (Click l ot) b)"
  "enter_returned (Ev (Press l k) b) \<longleftrightarrow> b" "\<not> tier_click (Ev (Press l k) b)"
  "\<not> fill_attempt (Ev (Press l k) b)"
  by (simp_all add: tier_click_def enter_returned_def fill_attempt_def)

lemma watching_event_simps [simp]:
  "watching ev \<Longrightarrow> \<not> fill_attempt ev" "watching ev \<Longrightarrow> \<not> enter_returned ev"
  "watching ev \<Longrightarrow> \<not> tier_click ev"
  using watching_not by blast+











lemma tier_bound_mono: "tier_bound 0 m \<Longrightarrow> tier_bound k m"
  unfolding tier_bound_def by auto














lemma typed_code:
  "obtain_code (scripted_env S) () = (Inr (asc ''1234''), [Ev (Input prompt_captcha) True], ())"
  if "s_libs S = False" and "s_ok S (Input prompt_captcha) ()" and "s_step S = (\<lambda>c w. w)"
    and "s_str S = (\<lambda>c w. asc '' 1234 '')"
  using that
  by (simp add: obtain_code_def ocr_captcha_def eval_defs strip_typed)


lemma form_fields:
  "s_ok form_script = (\<lambda>c w. True)"
  "s_step form_script = (\<lambda>c w. w)" "s_bool form_script = (\<lambda>c w. False)"
  "s_str form_script = (\<lambda>c w. asc '' 1234 '')" "s_libs form_script = False"
  by (simp_all add: form_script_def captcha_script_def)

lemmas confirm_defs = fill_captcha_and_confirm_def fill_captcha_def input_candidates_def
  confirm_step_def agree_terms_if_present_def check_by_role_def press_enter_def
  confirm_labels_def click_if_visible_def save_debug_def submit_form_def captcha_input_def

lemma typed_nonempty: "asc ''1234'' \<noteq> []"
  by (simp add: asc_def)


lemma form_run:
  "fill_captcha_and_confirm (scripted_env form_script) 15000 () = (Inr (), form_trace, ())"
  by (simp add: confirm_defs typed_code typed_nonempty form_fields eval_defs form_trace_def
      typed_and_confirmed_def)





section \<open>The form is submitted after a confirmation label was clicked\<close>

lemma never_raises_check_by_label: "never_raises (check_by_label E labels)"
  by (induction labels) (auto intro!: never_raises_bnd never_raises_attempt)

lemma never_raises_agree_terms: "never_raises (agree_terms_if_present E)"
  unfolding agree_terms_if_present_def check_by_role_def
  by (intro never_raises_bnd never_raises_if never_raises_attempt never_raises_ret
      never_raises_check_by_label)

lemma never_raises_press_enter: "never_raises (press_enter E captcha_focused)"
  unfolding press_enter_def by (intro never_raises_attempt never_raises_ret)

lemma never_raises_click_confirm_label: "never_raises (click_confirm_label E labels)"
  by (induction labels) (auto intro!: never_raises_bnd never_raises_click_if_visible)

lemma never_raises_click_confirm_text: "never_raises (click_confirm_text E)"
  unfolding click_confirm_text_def click_keyword_button_def
  by (intro never_raises_attempt never_raises_ret)

lemma never_raises_submit_form: "never_raises (submit_form E)"
  unfolding submit_form_def by (intro never_raises_attempt never_raises_ret)

lemma trace_bnd_suffix:
  assumes "never_raises m"
  shows "\<exists>pre x w1. trace_of (bnd m f w) = pre @ trace_of (f x w1)"
proof -
  obtain r t w1 where run: "m w = (r, t, w1)" by (metis prod.collapse)
  then obtain x where "r = Inr x" using never_raisesD [OF assms] by blast
  then have "trace_of (bnd m f w) = t @ trace_of (f x w1)"
    using run by (simp add: bnd_def trace_of_def split: prod.splits)
  then show ?thesis by blast
qed

lemma submit_form_first_call:
  "\<exists>b rest. trace_of (submit_form E w) = Ev (ScrollIntoView first_form) b # rest"
  unfolding submit_form_def bnd_def attempt_def perform_def ret_def trace_of_def
  by (auto split: prod.splits sum.splits)

text \<open>Every run of step 10 reaches the form tier.\<close>

lemma confirm_step_reaches_form:
  "\<exists>pre b rest. trace_of (confirm_step E captcha_focused w)
      = pre @ Ev (ScrollIntoView first_form) b # rest"
proof -
  let ?m5 = "\<lambda>_ :: unit. submit_form E"
  let ?m4 = "\<lambda>_ :: unit. bnd (attempt (save_debug E (asc ''step10_confirm_not_found'')) (ret ())) ?m5"
  let ?m3 = "\<lambda>clicked. bnd (if clicked then ret () else click_confirm_text E) ?m4"
  let ?m2 = "\<lambda>_ :: unit. bnd (click_confirm_label E confirm_labels) ?m3"
  let ?m1 = "\<lambda>_ :: unit. bnd (press_enter E captcha_focused) ?m2"
  obtain p1 w1 where 1: "trace_of (confirm_step E captcha_focused w) = p1 @ trace_of (?m1 () w1)"
    unfolding confirm_step_def
    using trace_bnd_suffix [OF never_raises_agree_terms, of E ?m1 w] by auto
  obtain p2 w2 where 2: "trace_of (?m1 () w1) = p2 @ trace_of (?m2 () w2)"
    using trace_bnd_suffix [OF never_raises_press_enter, of E captcha_focused ?m2 w1] by auto
  obtain p3 c w3 where 3: "trace_of (?m2 () w2) = p3 @ trace_of (?m3 c w3)"
    using trace_bnd_suffix [OF never_raises_click_confirm_label, of E confirm_labels ?m3 w2]
    by auto
  have "never_raises (if c then ret () else click_confirm_text E)"
    by (intro never_raises_if never_raises_ret never_raises_click_confirm_text)
  from trace_bnd_suffix [OF this, of ?m4 w3]
  obtain p4 w4 where 4: "trace_of (?m3 c w3) = p4 @ trace_of (?m4 () w4)"
    by auto
  have "never_raises (attempt (save_debug E (asc ''step10_confirm_not_found'')) (ret ()))"
    by (intro never_raises_attempt never_raises_ret)
  from trace_bnd_suffix [OF this, of ?m5 w4]
  obtain p5 w5 where 5: "trace_of (?m4 () w4) = p5 @ trace_of (submit_form E w5)"
    by auto
  obtain b rest where "trace_of (submit_form E w5) = Ev (ScrollIntoView first_form) b # rest"
    using submit_form_first_call [of E w5] by auto
  then have "trace_of (confirm_step E captcha_focused w)
      = (p1 @ p2 @ p3 @ p4 @ p5) @ Ev (ScrollIntoView first_form) b # rest"
    using 1 2 3 4 5 by simp
  then show ?thesis by blast
qed

lemma form_clicks:
  "filter click_returned form_trace
     = [Ev (Click (role_button lbl_confirm_quantity) None) True,
        Ev (Click submit_button (Some 800)) True]"
  by (simp add: form_trace_def typed_and_confirmed_def click_returned_def)

text \<open>
  C3. The claim lets the form tier run only when the tiers before it found nothing. The
  code runs it in every case: whatever the page and whatever the other tiers did, step 10
  goes on to the form. On a page where the first confirmation label can be clicked and
  that has a form, the label is clicked and then the submit button of the form is
  clicked as well.
\<close>

theorem form_submitted_after_label_click:
  "(\<exists>pre b rest. trace_of (confirm_step E captcha_focused w)
        = pre @ Ev (ScrollIntoView first_form) b # rest)
   \<and> fill_captcha_and_confirm (scripted_env form_script) 15000 () = (Inr (), form_trace, ())
   \<and> filter click_returned form_trace
       = [Ev (Click (role_button lbl_confirm_quantity) None) True,
          Ev (Click submit_button (Some 800)) True]"
  using confirm_step_reaches_form [of E captcha_focused w]
  by (simp add: form_run form_clicks)


section \<open>The timeouts given to the locator attempts\<close>

lemma timed_in_untimed [simp]:
  "timed_in ts (Ev (ScrollIntoView l) b)" "timed_in ts (Ev (Count l) b)"
  "timed_in ts (Ev (AllOf l) b)" "timed_in ts (Ev (GetAttribute l s) b)"
  "timed_in ts (Ev (InnerText l) b)" "timed_in ts (Ev (SelectOption l s) b)"
  "timed_in ts (Ev (SelectOptionLabel l s) b)" "timed_in ts (Ev (WaitForTimeout t) b)"
  "timed_in ts (Ev (Sleep_ms t) b)" "timed_in ts (Ev (Click l None) b)"
  "timed_in ts (Ev (Fill l s None) b)"
  by (simp_all add: timed_in_def timeout_of_def)

lemma timed_in_timed [simp]:
  "timed_in ts (Ev (WaitFor l s t) b) \<longleftrightarrow> t \<in> set ts"
  "timed_in ts (Ev (Click l (Some t)) b) \<longleftrightarrow> t \<in> set ts"
  by (simp_all add: timed_in_def timeout_of_def)

lemma timed_click_if_visible: "t \<in> set ts \<Longrightarrow> emits (timed_in ts) (click_if_visible E l t)"
  by (rule emits_click_if_visible) simp_all

lemma timed_fill_seconds: "emits (timed_in ts) (fill_seconds E seconds inputs)"
  by (induction inputs) (auto intro!: emits_perform)

lemma timed_start_countdown_and_buy:
  "emits (timed_in [1000, 2000]) (start_countdown_and_buy E seconds timeout_ms)"
  unfolding start_countdown_and_buy_def
  by (intro emits_attempt emits_bnd emits_if emits_ret emits_all_of emits_perform
      timed_fill_seconds timed_click_if_visible)
     simp_all

lemma timed_buy_clicks: "emits (timed_in [1200]) (buy_clicks E n)"
  by (induction n) (auto intro!: emits_perform timed_click_if_visible)

lemma timed_select_price: "emits (timed_in [timeout_ms]) (select_price E price_text timeout_ms)"
  unfolding select_price_def
  by (intro emits_attempt emits_bnd emits_if emits_ret emits_perform) simp_all

lemma timed_option_values: "emits (timed_in ts) (option_values E opts)"
  by (induction opts) (auto intro!: emits_perform)

lemma timed_option_texts: "emits (timed_in ts) (option_texts E opts)"
  by (induction opts) (auto intro!: emits_perform)

lemma timed_choose_quantity: "emits (timed_in ts) (choose_quantity E target sels)"
  by (induction sels) (auto intro!: emits_perform emits_all_of timed_option_values timed_option_texts)

lemma timed_select_price_and_quantity:
  "emits (timed_in [timeout_ms]) (select_price_and_quantity E price_text quantity timeout_ms)"
  unfolding select_price_and_quantity_def select_quantity_def
  by (intro emits_attempt emits_bnd emits_if emits_ret emits_perform emits_all_of
      timed_select_price timed_choose_quantity)
     simp_all

lemma timed_in_within:
  assumes "list_all (timed_in ts) t" and "\<And>x. x \<in> set ts \<Longrightarrow> x \<le> bound"
  shows "list_all (timeout_within bound) t"
proof -
  have "timeout_within bound ev" if "timed_in ts ev" for ev
    using that assms(2)
    by (cases ev) (auto simp: timed_in_def timeout_within_def split: option.splits)
  then show ?thesis using assms(1) by (auto simp: list_all_iff)
qed

text \<open>
  C7, as the code has it. Every call of \<open>start_countdown_and_buy\<close> that is given a
  timeout is given 1000 or 2000 ms, so at most 2000 ms; every such call of
  \<open>select_price_and_quantity\<close> is given the caller's \<open>timeout_ms\<close>; every such call of
  \<open>double_click_buy\<close> is given 1200 ms. The other calls are given no timeout.
\<close>

theorem attempts_have_own_timeouts:
  "list_all (timed_in [1000, 2000]) (trace_of (start_countdown_and_buy E seconds timeout_ms w))
   \<and> list_all (timeout_within 2000) (trace_of (start_countdown_and_buy E seconds timeout_ms w))
   \<and> list_all (timed_in [timeout_ms])
        (trace_of (select_price_and_quantity E price_text quantity timeout_ms w))
   \<and> list_all (timed_in [1200]) (trace_of (double_click_buy E w))
   \<and> list_all (timeout_within 1200) (trace_of (double_click_buy E w))"
proof -
  have a: "list_all (timed_in [1000, 2000]) (trace_of (start_countdown_and_buy E seconds timeout_ms w))"
    by (rule emits_trace [OF timed_start_countdown_and_buy])
  have b: "list_all (timed_in [timeout_ms])
        (trace_of (select_price_and_quantity E price_text quantity timeout_ms w))"
    by (rule emits_trace [OF timed_select_price_and_quantity])
  have c: "list_all (timed_in [1200]) (trace_of (double_click_buy E w))"
    unfolding double_click_buy_def by (rule emits_trace [OF timed_buy_clicks])
  have "list_all (timeout_within 2000) (trace_of (start_countdown_and_buy E seconds timeout_ms w))"
    by (rule timed_in_within [OF a]) auto
  moreover have "list_all (timeout_within 1200) (trace_of (double_click_buy E w))"
    by (rule timed_in_within [OF c]) auto
  ultimately show ?thesis using a b c by simp
qed

lemma empty_fields:
  "s_ok empty_script = (\<lambda>c w. is_all c)" "s_step empty_script = (\<lambda>c w. w)"
  "s_nat empty_script = (\<lambda>c w. 0)"
  by (simp_all add: empty_script_def dead_script_def)

lemma empty_countdown_run:
  "start_countdown_and_buy (scripted_env empty_script) 3 15000 ()
     = (Inr (), empty_countdown_trace, ())"
  by (simp add: start_countdown_and_buy_def click_if_visible_def eval_defs empty_fields
      is_all_def empty_countdown_trace_def)

lemma dead_price_run:
  "select_price_and_quantity (scripted_env dead_script) (asc ''2800'') 2 15000 ()
     = (Inl PyException,
        [Ev (Count (price_header (asc ''2800''))) False,
         Ev (Click (digits_anywhere (asc ''2800'')) (Some 15000)) False], ())"
  by (simp add: select_price_and_quantity_def select_price_def eval_defs dead_fields
      normalize_digits_def py_isdigit_def ascii_digit_def asc_def)

text \<open>
  On the page without any element, the countdown step waits 2000 ms for the second buy
  label; on the page where nothing is found, the price step clicks with the 15000 ms it
  was called with. Both are more than 1200 ms.
\<close>

theorem timeout_above_1200:
  "timeouts_of (trace_of (start_countdown_and_buy (scripted_env empty_script) 3 15000 ()))
     = [1000, 1000, 1000, 1000, 2000, 2000]
   \<and> \<not> list_all (timeout_within 1200)
        (trace_of (start_countdown_and_buy (scripted_env empty_script) 3 15000 ()))
   \<and> timeouts_of (trace_of (select_price_and_quantity (scripted_env dead_script)
        (asc ''2800'') 2 15000 ())) = [15000]
   \<and> \<not> list_all (timeout_within 1200)
        (trace_of (select_price_and_quantity (scripted_env dead_script) (asc ''2800'') 2 15000 ()))"
  by (simp add: empty_countdown_run dead_price_run trace_of_def empty_countdown_trace_def
      timeouts_of_def timeout_of_def timeout_within_def List.map_filter_simps)

theorem attempts_have_own_timeouts_witness:
  "trace_of (start_countdown_and_buy (scripted_env empty_script) 3 15000 ()) = empty_countdown_trace
   \<and> list_all (timed_in [1000, 2000]) empty_countdown_trace
   \<and> list_all (timeout_within 2000) empty_countdown_trace
   \<and> list_all (timed_in [15000])
        (trace_of (select_price_and_quantity (scripted_env dead_script) (asc ''2800'') 2 15000 ()))"
  using attempts_have_own_timeouts [of "scripted_env empty_script" 3 15000 "()" "asc ''2800''" 2]
    attempts_have_own_timeouts [of "scripted_env dead_script" 3 15000 "()" "asc ''2800''" 2]
  by (simp add: empty_countdown_run trace_of_def)


section \<open>The quantity is selected by value or text\<close>

lemma call_of_Ev [simp]: "call_of (Ev c b) = c"
  by (simp add: call_of_def)




lemma selects_only_simps [simp]:
  "selects_only target (Ev (SelectOption l v) b) \<longleftrightarrow> v = target"
  "selects_only target (Ev (SelectOptionLabel l v) b) \<longleftrightarrow> v = target"
  "selects_only target (Ev (AllOf l) b)" "selects_only target (Ev (GetAttribute l s) b)"
  "selects_only target (Ev (InnerText l) b)"
  by (simp_all add: selects_only_def)











section \<open>Price normalization is idempotent\<close>

text \<open>
  C10. \<open>normalize_digits\<close> is a total function, applying it twice gives what applying it
  once gives, \<open>normalize("NT$2,800") = "2800"\<close> and \<open>normalize("") = ""\<close>, whatever the
  Unicode tables say beyond ASCII.
\<close>

theorem normalize_digits_idempotent:
  "normalize_digits U (normalize_digits U s) = normalize_digits U s
   \<and> normalize_digits U (asc ''NT$2,800'') = asc ''2800''
   \<and> normalize_digits U [] = []"
proof -
  have "normalize_digits U (normalize_digits U s) = normalize_digits U s"
    unfolding normalize_digits_def by simp
  moreover have "normalize_digits U (asc ''NT$2,800'') = asc ''2800''"
    by (simp add: normalize_digits_def py_isdigit_def ascii_digit_def asc_def)
  moreover have "normalize_digits U [] = []"
    by (simp add: normalize_digits_def)
  ultimately show ?thesis by simp
qed

theorem normalize_digits_idempotent_witness:
  "normalize_digits ascii_tables (normalize_digits ascii_tables (asc ''Row 12, NT$2,800''))
     = asc ''122800''
   \<and> normalize_digits ascii_tables (asc ''NT$2,800'') = asc ''2800''"
  using normalize_digits_idempotent [of ascii_tables "asc ''Row 12, NT$2,800''"]
  by (simp add: normalize_digits_def py_isdigit_def ascii_digit_def asc_def)


end
